theory Spec2Isabelle
  imports
    Complex_Main
    "HOL-Library.Multiset"
    "HOL-Library.AList"
    "HOL-Library.Char_ord"
    "HOL-Library.List_Lexorder"
    "HOL-Library.Option_ord"
    "HOL-Library.Log_Nat"
begin

section \<open>The environmental query gateway (app.py)\<close>

text \<open>
  The gateway is a Flask application: fourteen request handlers, each of which runs one
  fixed SQL statement on a shared connection (or one call of an external text-generation
  service) and shapes the outcome as a JSON response. The handlers are embedded as
  functions from the world (the store behind the connection, the external service) and
  the request to the response and the world afterwards. Whatever a handler's
  \<^verbatim>\<open>try\<close> block can raise is a value \<open>Inl message\<close>, and the \<^verbatim>\<open>except\<close> branch is
  the case that turns it into the 500 response.
\<close>

subsection \<open>JSON values, requests and responses\<close>

text \<open>
  JSON values as Python holds them after parsing and before writing. A number is the
  rational it denotes (every integer and every finite double is one); the three floats
  that are not finite, which Python's \<^verbatim>\<open>json\<close> reads and writes as \<^verbatim>\<open>Infinity\<close>,
  \<^verbatim>\<open>-Infinity\<close> and \<^verbatim>\<open>NaN\<close>, have constructors of their own.
\<close>

datatype json =
    JNull
  | JBool bool
  | JNumber rat
  | JInfinity
  | JMinusInfinity
  | JNaN
  | JString string
  | JArray "json list"
  | JObject "(string \<times> json) list"

text \<open>Python's truth value of a parsed JSON value, as \<^verbatim>\<open>if not data\<close> tests it.\<close>

fun truthy :: "json \<Rightarrow> bool" where
  "truthy JNull = False"
| "truthy (JBool b) = b"
| "truthy (JNumber r) = (r \<noteq> 0)"
| "truthy JInfinity = True"
| "truthy JMinusInfinity = True"
| "truthy JNaN = True"
| "truthy (JString s) = (s \<noteq> [])"
| "truthy (JArray xs) = (xs \<noteq> [])"
| "truthy (JObject kvs) = (kvs \<noteq> [])"

text \<open>
  A request as the handlers read it: \<open>request_json\<close> is the outcome of evaluating
  \<^verbatim>\<open>request.json\<close> (\<open>Inl\<close> the message of the exception Flask raises when it cannot
  produce a value, \<open>Inr\<close> the parsed body, \<open>JNull\<close> for Python's \<^verbatim>\<open>None\<close>), and
  \<open>args\<close> are the query parameters in the order they were sent.
\<close>

record request =
  request_json :: "string + json"
  args :: "(string \<times> string) list"

text \<open>\<^verbatim>\<open>request.args.get(key)\<close>: the first value sent under the key, or \<^verbatim>\<open>None\<close>.\<close>

definition args_get :: "request \<Rightarrow> string \<Rightarrow> string option" where
  "args_get req key = map_of (args req) key"

text \<open>\<^verbatim>\<open>not v\<close> for a value that is \<^verbatim>\<open>None\<close> or a string.\<close>

definition not_str :: "string option \<Rightarrow> bool" where
  "not_str v = (case v of None \<Rightarrow> True | Some s \<Rightarrow> s = [])"

record response =
  status :: nat
  body :: json

text \<open>\<^verbatim>\<open>return jsonify(x), code\<close>; a handler that returns \<^verbatim>\<open>jsonify(x)\<close> alone answers 200.\<close>

definition jsonify :: "json \<Rightarrow> nat \<Rightarrow> response" where
  "jsonify x code = \<lparr>status = code, body = x\<rparr>"

text \<open>\<^verbatim>\<open>jsonify({'error': message}), code\<close>.\<close>

definition error_response :: "string \<Rightarrow> nat \<Rightarrow> response" where
  "error_response message code = jsonify (JObject [(''error'', JString message)]) code"

subsection \<open>The data store\<close>

text \<open>
  Modelled from the spec: the schema of the two tables, which no file of the repository
  declares. A temperature reading is \<open>{id, timestamp, temperature}\<close>, a motion event
  \<open>{id, timestamp, motion_detected}\<close>; timestamps are strings, compared as the store
  compares text (byte by byte, a proper prefix first).
\<close>

record temperature_reading =
  reading_id :: int
  reading_timestamp :: string
  reading_temperature :: rat

record motion_event =
  event_id :: int
  event_timestamp :: string
  event_motion_detected :: int

text \<open>The values of the store. A \<^verbatim>\<open>REAL\<close> is a double: a finite one is the rational it
  denotes, and the two infinities stand apart.\<close>

datatype sql_value =
    SqlNull
  | SqlInteger int
  | SqlReal rat
  | SqlInfinity
  | SqlMinusInfinity
  | SqlText string

datatype table_name = Temperature | Motion

text \<open>
  The time buckets of the aggregate statements: \<^verbatim>\<open>DATE(timestamp)\<close>,
  \<^verbatim>\<open>STRFTIME('%Y-%W', timestamp)\<close>, \<^verbatim>\<open>STRFTIME('%Y-%m', timestamp)\<close> and
  \<^verbatim>\<open>STRFTIME('%H', timestamp)\<close>.
\<close>

datatype bucket = Day | Week | Month | Hour

datatype direction = Asc | Desc

text \<open>
  The SQL statements of app.py, one constructor for each shape:
  \<^item> \<open>SelectLatest t\<close>: \<^verbatim>\<open>SELECT * FROM t ORDER BY timestamp DESC LIMIT 100\<close>;
  \<^item> \<open>SelectRange t a b\<close>:
    \<^verbatim>\<open>SELECT * FROM t WHERE timestamp BETWEEN ? AND ? ORDER BY timestamp DESC\<close>
    with the parameters \<open>(a, b)\<close>;
  \<^item> \<open>SelectAverage b d\<close>:
    \<^verbatim>\<open>SELECT b as label, AVG(temperature) as average_temp FROM temperature GROUP BY b ORDER BY b d\<close>;
  \<^item> \<open>SelectCount b d\<close>:
    \<^verbatim>\<open>SELECT b as label, COUNT(*) as motion_count FROM motion GROUP BY b ORDER BY b d\<close>;
  \<^item> \<open>SelectPeakTemperature\<close>:
    \<^verbatim>\<open>SELECT * FROM temperature ORDER BY temperature DESC LIMIT 1\<close>;
  \<^item> \<open>SelectPeakMotion\<close>:
    \<^verbatim>\<open>SELECT DATE(timestamp) as date, COUNT(*) as motion_count FROM motion
    GROUP BY DATE(timestamp) ORDER BY COUNT(*) DESC LIMIT 1\<close>.
\<close>

datatype statement =
    SelectLatest table_name
  | SelectRange table_name string string
  | SelectAverage bucket direction
  | SelectCount bucket direction
  | SelectPeakTemperature
  | SelectPeakMotion

text \<open>What a cursor holds after \<^verbatim>\<open>execute\<close>: the column names and the result rows.\<close>

record cursor =
  description :: "string list"
  fetched :: "sql_value list list"

text \<open>
  The world a handler runs in. The tables are the store's, in the order in which the
  store reads them; \<open>sql_bucket\<close> is the store's date function for each bucket (\<open>None\<close>
  for SQL \<^verbatim>\<open>NULL\<close>, which it yields on a timestamp it cannot read); \<open>sql_avg\<close> is the
  store's \<^verbatim>\<open>AVG\<close> aggregate, which it computes in floating-point arithmetic, on the
  values of a group; \<open>store_fault\<close> says for which statements the connection
  raises, and with which message; \<open>issued\<close> is the trace of the statements the store has
  received. \<open>json_dumps\<close> is \<^verbatim>\<open>json.dumps(_, indent=2)\<close>, \<open>chat_completion\<close> the external
  text-generation call on the list of (role, content) messages: it raises, or returns the
  \<open>message.content\<close> of each choice (\<open>None\<close> when the service sends no text);
  \<open>prompts\<close> is the trace of the calls made.
\<close>

record world =
  temperature_table :: "temperature_reading list"
  motion_table :: "motion_event list"
  sql_bucket :: "bucket \<Rightarrow> string \<Rightarrow> string option"
  sql_avg :: "rat list \<Rightarrow> sql_value"
  store_fault :: "statement \<Rightarrow> string option"
  issued :: "statement list"
  json_dumps :: "json \<Rightarrow> string"
  chat_completion :: "(string \<times> string) list \<Rightarrow> string + string option list"
  prompts :: "(string \<times> string) list list"

subsection \<open>What the store answers\<close>

text \<open>\<^verbatim>\<open>ORDER BY key DESC\<close>. Rows with equal keys come in an order the store chooses;
  here it is the reverse of the order of the table.\<close>

definition order_by_desc :: "('a \<Rightarrow> 'k::linorder) \<Rightarrow> 'a list \<Rightarrow> 'a list" where
  "order_by_desc key xs = rev (sort_key key xs)"

definition order_by :: "direction \<Rightarrow> ('a \<Rightarrow> 'k::linorder) \<Rightarrow> 'a list \<Rightarrow> 'a list" where
  "order_by d key xs = (case d of Asc \<Rightarrow> sort_key key xs | Desc \<Rightarrow> order_by_desc key xs)"

text \<open>\<^verbatim>\<open>GROUP BY key\<close>: one group for each distinct key, holding the rows with that key.\<close>

definition group_by :: "('a \<Rightarrow> 'k) \<Rightarrow> 'a list \<Rightarrow> ('k \<times> 'a list) list" where
  "group_by key xs = map (\<lambda>k. (k, filter (\<lambda>x. key x = k) xs)) (remdups (map key xs))"

definition sql_count :: "'a list \<Rightarrow> sql_value" where
  "sql_count xs = SqlInteger (int (length xs))"

definition label_value :: "string option \<Rightarrow> sql_value" where
  "label_value l = (case l of None \<Rightarrow> SqlNull | Some s \<Rightarrow> SqlText s)"

definition bucket_alias :: "bucket \<Rightarrow> string" where
  "bucket_alias b = (case b of Day \<Rightarrow> ''date'' | Week \<Rightarrow> ''week'' | Month \<Rightarrow> ''month''
                | Hour \<Rightarrow> ''hour'')"

definition temperature_columns :: "string list" where
  "temperature_columns = [''id'', ''timestamp'', ''temperature'']"

definition motion_columns :: "string list" where
  "motion_columns = [''id'', ''timestamp'', ''motion_detected'']"

definition temperature_row :: "temperature_reading \<Rightarrow> sql_value list" where
  "temperature_row r =
     [SqlInteger (reading_id r), SqlText (reading_timestamp r), SqlReal (reading_temperature r)]"

definition motion_row :: "motion_event \<Rightarrow> sql_value list" where
  "motion_row e =
     [SqlInteger (event_id e), SqlText (event_timestamp e), SqlInteger (event_motion_detected e)]"

text \<open>\<^verbatim>\<open>x BETWEEN a AND b\<close> on text.\<close>

definition between :: "string \<Rightarrow> string \<Rightarrow> string \<Rightarrow> bool" where
  "between a b x = (a \<le> x \<and> x \<le> b)"

fun run_select :: "world \<Rightarrow> statement \<Rightarrow> cursor" where
  "run_select w (SelectLatest Temperature) =
     \<lparr>description = temperature_columns,
      fetched = map temperature_row
        (take 100 (order_by_desc reading_timestamp (temperature_table w)))\<rparr>"
| "run_select w (SelectLatest Motion) =
     \<lparr>description = motion_columns,
      fetched = map motion_row (take 100 (order_by_desc event_timestamp (motion_table w)))\<rparr>"
| "run_select w (SelectRange Temperature a b) =
     \<lparr>description = temperature_columns,
      fetched = map temperature_row
        (order_by_desc reading_timestamp
           (filter (\<lambda>r. between a b (reading_timestamp r)) (temperature_table w)))\<rparr>"
| "run_select w (SelectRange Motion a b) =
     \<lparr>description = motion_columns,
      fetched = map motion_row
        (order_by_desc event_timestamp
           (filter (\<lambda>e. between a b (event_timestamp e)) (motion_table w)))\<rparr>"
| "run_select w (SelectAverage b d) =
     \<lparr>description = [bucket_alias b, ''average_temp''],
      fetched = map (\<lambda>(l, g). [label_value l, sql_avg w (map reading_temperature g)])
        (order_by d fst
           (group_by (\<lambda>r. sql_bucket w b (reading_timestamp r)) (temperature_table w)))\<rparr>"
| "run_select w (SelectCount b d) =
     \<lparr>description = [bucket_alias b, ''motion_count''],
      fetched = map (\<lambda>(l, g). [label_value l, sql_count g])
        (order_by d fst
           (group_by (\<lambda>e. sql_bucket w b (event_timestamp e)) (motion_table w)))\<rparr>"
| "run_select w SelectPeakTemperature =
     \<lparr>description = temperature_columns,
      fetched = map temperature_row
        (take 1 (order_by_desc reading_temperature (temperature_table w)))\<rparr>"
| "run_select w SelectPeakMotion =
     \<lparr>description = [''date'', ''motion_count''],
      fetched = map (\<lambda>(l, g). [label_value l, sql_count g])
        (take 1 (order_by_desc (\<lambda>(l, g). length g)
           (group_by (\<lambda>e. sql_bucket w Day (event_timestamp e)) (motion_table w))))\<rparr>"

text \<open>
  \<^verbatim>\<open>cursor = conn.cursor(); cursor.execute(query)\<close>: the store records the statement;
  the call raises, or leaves the answer in the cursor. A \<^verbatim>\<open>SELECT\<close> leaves the tables
  as they are.
\<close>

definition execute :: "world \<Rightarrow> statement \<Rightarrow> (string + cursor) \<times> world" where
  "execute w q =
     ((case store_fault w q of Some m \<Rightarrow> Inl m | None \<Rightarrow> Inr (run_select w q)),
      w\<lparr>issued := issued w @ [q]\<rparr>)"

definition fetchall :: "cursor \<Rightarrow> sql_value list list" where
  "fetchall cur = fetched cur"

definition fetchone :: "cursor \<Rightarrow> sql_value list option" where
  "fetchone cur = (case fetched cur of [] \<Rightarrow> None | row # _ \<Rightarrow> Some row)"

subsection \<open>Shaping rows\<close>

text \<open>\<^verbatim>\<open>dict(pairs)\<close>: a key met again keeps its place and takes the later value.\<close>

definition dict :: "(string \<times> 'v) list \<Rightarrow> (string \<times> 'v) list" where
  "dict pairs = fold (\<lambda>(k, v) d. AList.update k v d) pairs []"

fun json_of_sql :: "sql_value \<Rightarrow> json" where
  "json_of_sql SqlNull = JNull"
| "json_of_sql (SqlInteger i) = JNumber (of_int i)"
| "json_of_sql (SqlReal r) = JNumber r"
| "json_of_sql SqlInfinity = JInfinity"
| "json_of_sql SqlMinusInfinity = JMinusInfinity"
| "json_of_sql (SqlText s) = JString s"

text \<open>What \<^verbatim>\<open>jsonify\<close> makes of a row's dict; the keys are kept in the order of the dict.\<close>

definition json_of_dict :: "(string \<times> sql_value) list \<Rightarrow> json" where
  "json_of_dict d = JObject (map (\<lambda>(k, v). (k, json_of_sql v)) d)"

text \<open>
  The tail every list handler shares:
  \<^verbatim>\<open>rows = cursor.fetchall(); columns = [desc[0] for desc in cursor.description];
  results = [dict(zip(columns, row)) for row in rows]; return jsonify(results)\<close>,
  with \<^verbatim>\<open>except Exception as e: return jsonify({'error': str(e)}), 500\<close>.
\<close>

definition respond_all :: "string + cursor \<Rightarrow> response" where
  "respond_all outcome =
     (case outcome of
        Inl e \<Rightarrow> error_response e 500
      | Inr cur \<Rightarrow>
          jsonify (JArray (map (\<lambda>row. json_of_dict (dict (zip (description cur) row)))
                     (fetchall cur))) 200)"

text \<open>The message of the \<^verbatim>\<open>TypeError\<close> that \<^verbatim>\<open>zip(columns, None)\<close> raises.\<close>

definition zip_none_message :: string where
  "zip_none_message = [CHR 0x27] @ ''NoneType'' @ [CHR 0x27] @ '' object is not iterable''"

text \<open>
  The tail of the two peak handlers:
  \<^verbatim>\<open>row = cursor.fetchone(); columns = ...; result = dict(zip(columns, row));
  return jsonify(result)\<close>. \<^verbatim>\<open>fetchone\<close> gives \<^verbatim>\<open>None\<close> when there is no row, and
  \<^verbatim>\<open>zip\<close> raises on it.
\<close>

definition respond_one :: "string + cursor \<Rightarrow> response" where
  "respond_one outcome =
     (case outcome of
        Inl e \<Rightarrow> error_response e 500
      | Inr cur \<Rightarrow>
          (case fetchone cur of
             None \<Rightarrow> error_response zip_none_message 500
           | Some row \<Rightarrow> jsonify (json_of_dict (dict (zip (description cur) row))) 200))"

definition run_all :: "world \<Rightarrow> statement \<Rightarrow> response \<times> world" where
  "run_all w q = (let (outcome, w') = execute w q in (respond_all outcome, w'))"

definition run_one :: "world \<Rightarrow> statement \<Rightarrow> response \<times> world" where
  "run_one w q = (let (outcome, w') = execute w q in (respond_one outcome, w'))"

subsection \<open>The handlers\<close>

definition get_temperature_data :: "world \<Rightarrow> request \<Rightarrow> response \<times> world" where
  "get_temperature_data w req = run_all w (SelectLatest Temperature)"

definition get_motion_data :: "world \<Rightarrow> request \<Rightarrow> response \<times> world" where
  "get_motion_data w req = run_all w (SelectLatest Motion)"

definition get_daily_temperature_average :: "world \<Rightarrow> request \<Rightarrow> response \<times> world" where
  "get_daily_temperature_average w req = run_all w (SelectAverage Day Desc)"

definition get_weekly_temperature_average :: "world \<Rightarrow> request \<Rightarrow> response \<times> world" where
  "get_weekly_temperature_average w req = run_all w (SelectAverage Week Desc)"

definition get_monthly_temperature_average :: "world \<Rightarrow> request \<Rightarrow> response \<times> world" where
  "get_monthly_temperature_average w req = run_all w (SelectAverage Month Desc)"

definition get_motion_by_day :: "world \<Rightarrow> request \<Rightarrow> response \<times> world" where
  "get_motion_by_day w req = run_all w (SelectCount Day Desc)"

definition get_temperature_by_day :: "world \<Rightarrow> request \<Rightarrow> response \<times> world" where
  "get_temperature_by_day w req = run_all w (SelectAverage Day Desc)"

definition get_motion_by_hour :: "world \<Rightarrow> request \<Rightarrow> response \<times> world" where
  "get_motion_by_hour w req = run_all w (SelectCount Hour Asc)"

definition get_motion_by_week :: "world \<Rightarrow> request \<Rightarrow> response \<times> world" where
  "get_motion_by_week w req = run_all w (SelectCount Week Desc)"

text \<open>
  The two range handlers. Past the test \<^verbatim>\<open>if not start_date or not end_date\<close> both
  parameters are strings, so \<open>the\<close> is applied to \<open>Some\<close> only.
\<close>

definition get_temperature_in_range :: "world \<Rightarrow> request \<Rightarrow> response \<times> world" where
  "get_temperature_in_range w req =
     (let start_date = args_get req ''start_date'';
          end_date = args_get req ''end_date''
      in if not_str start_date \<or> not_str end_date
         then (error_response ''Start date and end date are required'' 400, w)
         else run_all w (SelectRange Temperature (the start_date) (the end_date)))"

definition get_motion_in_range :: "world \<Rightarrow> request \<Rightarrow> response \<times> world" where
  "get_motion_in_range w req =
     (let start_date = args_get req ''start_date'';
          end_date = args_get req ''end_date''
      in if not_str start_date \<or> not_str end_date
         then (error_response ''Start date and end date are required'' 400, w)
         else run_all w (SelectRange Motion (the start_date) (the end_date)))"

definition get_peak_temperature :: "world \<Rightarrow> request \<Rightarrow> response \<times> world" where
  "get_peak_temperature w req = run_one w SelectPeakTemperature"

definition get_peak_motion :: "world \<Rightarrow> request \<Rightarrow> response \<times> world" where
  "get_peak_motion w req = run_one w SelectPeakMotion"

subsection \<open>The summary handler\<close>

text \<open>
  \<^verbatim>\<open>str.strip()\<close>: whitespace is dropped at both ends. A string is held as the bytes of
  its UTF-8 encoding, so \<open>whitespace\<close> lists the encodings of the characters for which
  \<^verbatim>\<open>str.isspace\<close> holds: U+0009 to U+000D, U+001C to U+0020, U+0085, U+00A0, U+1680,
  U+2000 to U+200A, U+2028, U+2029, U+202F, U+205F and U+3000.
\<close>

definition whitespace :: "string list" where
  "whitespace =
     [[CHR 0x09], [CHR 0x0A], [CHR 0x0B], [CHR 0x0C], [CHR 0x0D],
      [CHR 0x1C], [CHR 0x1D], [CHR 0x1E], [CHR 0x1F], [CHR 0x20],
      [CHR 0xC2, CHR 0x85], [CHR 0xC2, CHR 0xA0],
      [CHR 0xE1, CHR 0x9A, CHR 0x80],
      [CHR 0xE2, CHR 0x80, CHR 0x80], [CHR 0xE2, CHR 0x80, CHR 0x81],
      [CHR 0xE2, CHR 0x80, CHR 0x82], [CHR 0xE2, CHR 0x80, CHR 0x83],
      [CHR 0xE2, CHR 0x80, CHR 0x84], [CHR 0xE2, CHR 0x80, CHR 0x85],
      [CHR 0xE2, CHR 0x80, CHR 0x86], [CHR 0xE2, CHR 0x80, CHR 0x87],
      [CHR 0xE2, CHR 0x80, CHR 0x88], [CHR 0xE2, CHR 0x80, CHR 0x89],
      [CHR 0xE2, CHR 0x80, CHR 0x8A],
      [CHR 0xE2, CHR 0x80, CHR 0xA8], [CHR 0xE2, CHR 0x80, CHR 0xA9],
      [CHR 0xE2, CHR 0x80, CHR 0xAF],
      [CHR 0xE2, CHR 0x81, CHR 0x9F],
      [CHR 0xE3, CHR 0x80, CHR 0x80]]"

text \<open>Dropping from the front every leading occurrence of one of the byte sequences.\<close>

fun lstrip_of :: "string list \<Rightarrow> string \<Rightarrow> string" where
  "lstrip_of ws [] = []"
| "lstrip_of ws (c # s) =
     (case find (\<lambda>w. w \<noteq> [] \<and> take (length w) (c # s) = w) ws of
        None \<Rightarrow> c # s
      | Some w \<Rightarrow> lstrip_of ws (drop (length w - 1) s))"

definition strip :: "string \<Rightarrow> string" where
  "strip s = rev (lstrip_of (map rev whitespace) (rev (lstrip_of whitespace s)))"

definition join_lines :: "string list \<Rightarrow> string" where
  "join_lines ls = concat (map (\<lambda>l. l @ [CHR 0x0A]) (butlast ls)) @ last ls"

definition system_prompt :: string where
  "system_prompt = join_lines
    [''You are an AI assistant specialized in summarizing environmental data. Your task is to provide a concise, well-structured summary of the given environmental data. Please follow these guidelines:'',
     [],
     ''1. Start with a brief overview of the data period and types of measurements included.'',
     ''2. Provide key statistics:'',
     ''   - Average temperature (if available)'',
     ''   - Total number of motion events (if available)'',
     ''   - Any other relevant aggregate data'',
     ''3. Identify and mention any notable patterns or anomalies in the data.'',
     ''4. Format the summary in easy-to-read paragraphs with appropriate line breaks.'',
     ''5. Use bullet points for listing key points or statistics when appropriate.'',
     ''6. End with a brief conclusion or recommendation based on the data.'',
     [],
     ''Ensure that your response is well-formatted and easily readable when returned through an API.'']"

definition user_prompt :: "string \<Rightarrow> string" where
  "user_prompt data_str =
     ''Please provide a brief, well-structured summary of the following environmental data:''
       @ [CHR 0x0A, CHR 0x0A] @ data_str"

text \<open>The message of the \<^verbatim>\<open>AttributeError\<close> of \<^verbatim>\<open>None.strip()\<close>.\<close>

definition none_strip_message :: string where
  "none_strip_message =
     [CHR 0x27] @ ''NoneType'' @ [CHR 0x27] @ '' object has no attribute ''
       @ [CHR 0x27] @ ''strip'' @ [CHR 0x27]"

text \<open>
  \<^verbatim>\<open>get_summary\<close>. The test is on the whole parsed body (\<^verbatim>\<open>data = request.json; if not
  data\<close>); the call to the service is made with the model name, \<^verbatim>\<open>max_tokens=650\<close>,
  \<^verbatim>\<open>n=1\<close> and \<^verbatim>\<open>temperature=0.7\<close> fixed, so its outcome depends on the messages only;
  \<^verbatim>\<open>completion.choices[0]\<close> raises on an empty list, \<^verbatim>\<open>.strip()\<close> on \<^verbatim>\<open>None\<close>.
\<close>

definition get_summary :: "world \<Rightarrow> request \<Rightarrow> response \<times> world" where
  "get_summary w req =
     (case request_json req of
        Inl e \<Rightarrow> (error_response e 500, w)
      | Inr data \<Rightarrow>
          if \<not> truthy data then (error_response ''No data provided'' 400, w)
          else
            let data_str = json_dumps w data;
                messages = [(''system'', system_prompt), (''user'', user_prompt data_str)];
                w' = w\<lparr>prompts := prompts w @ [messages]\<rparr>
            in (case chat_completion w messages of
                  Inl e \<Rightarrow> (error_response e 500, w')
                | Inr choices \<Rightarrow>
                    (case choices of
                       [] \<Rightarrow> (error_response ''list index out of range'' 500, w')
                     | content # _ \<Rightarrow>
                         (case content of
                            None \<Rightarrow> (error_response none_strip_message 500, w')
                          | Some text \<Rightarrow>
                              (jsonify (JObject [(''summary'', JString (strip text))]) 200,
                               w')))))"

subsection \<open>Routing\<close>

datatype route =
    Summarize
  | DataTemperature
  | DataMotion
  | TemperatureAverageDay
  | TemperatureAverageWeek
  | TemperatureAverageMonth
  | MotionByDay
  | TemperatureByDay
  | MotionByHour
  | MotionByWeek
  | TemperatureRange
  | MotionRange
  | TemperaturePeak
  | MotionPeak

datatype http_method = GET | POST

text \<open>The \<^verbatim>\<open>@app.route\<close> decorators.\<close>

definition routes :: "((http_method \<times> string) \<times> route) list" where
  "routes =
     [((POST, ''/summarize''), Summarize),
      ((GET, ''/data/temperature''), DataTemperature),
      ((GET, ''/data/motion''), DataMotion),
      ((GET, ''/data/temperature/average/day''), TemperatureAverageDay),
      ((GET, ''/data/temperature/average/week''), TemperatureAverageWeek),
      ((GET, ''/data/temperature/average/month''), TemperatureAverageMonth),
      ((GET, ''/data/motion/by-day''), MotionByDay),
      ((GET, ''/data/temperature/by-day''), TemperatureByDay),
      ((GET, ''/data/motion/by-hour''), MotionByHour),
      ((GET, ''/data/motion/by-week''), MotionByWeek),
      ((GET, ''/data/temperature/range''), TemperatureRange),
      ((GET, ''/data/motion/range''), MotionRange),
      ((GET, ''/data/temperature/peak''), TemperaturePeak),
      ((GET, ''/data/motion/peak''), MotionPeak)]"

definition route_of :: "http_method \<Rightarrow> string \<Rightarrow> route option" where
  "route_of m path = map_of routes (m, path)"

fun handle :: "world \<Rightarrow> route \<Rightarrow> request \<Rightarrow> response \<times> world" where
  "handle w Summarize req = get_summary w req"
| "handle w DataTemperature req = get_temperature_data w req"
| "handle w DataMotion req = get_motion_data w req"
| "handle w TemperatureAverageDay req = get_daily_temperature_average w req"
| "handle w TemperatureAverageWeek req = get_weekly_temperature_average w req"
| "handle w TemperatureAverageMonth req = get_monthly_temperature_average w req"
| "handle w MotionByDay req = get_motion_by_day w req"
| "handle w TemperatureByDay req = get_temperature_by_day w req"
| "handle w MotionByHour req = get_motion_by_hour w req"
| "handle w MotionByWeek req = get_motion_by_week w req"
| "handle w TemperatureRange req = get_temperature_in_range w req"
| "handle w MotionRange req = get_motion_in_range w req"
| "handle w TemperaturePeak req = get_peak_temperature w req"
| "handle w MotionPeak req = get_peak_motion w req"

subsection \<open>The text of the statements\<close>

text \<open>
  The SQL text each statement stands for, as app.py writes it, with every run of
  whitespace written as one space and none at the ends; \<open>statement_params\<close> are the
  values bound to its \<^verbatim>\<open>?\<close> placeholders.
\<close>

definition table_text :: "table_name \<Rightarrow> string" where
  "table_text t = (case t of Temperature \<Rightarrow> ''temperature'' | Motion \<Rightarrow> ''motion'')"

definition bucket_text :: "bucket \<Rightarrow> string" where
  "bucket_text b =
     (case b of
        Day \<Rightarrow> ''DATE(timestamp)''
      | Week \<Rightarrow> ''STRFTIME('' @ [CHR 0x27] @ ''%Y-%W'' @ [CHR 0x27] @ '', timestamp)''
      | Month \<Rightarrow> ''STRFTIME('' @ [CHR 0x27] @ ''%Y-%m'' @ [CHR 0x27] @ '', timestamp)''
      | Hour \<Rightarrow> ''STRFTIME('' @ [CHR 0x27] @ ''%H'' @ [CHR 0x27] @ '', timestamp)'')"

definition direction_text :: "direction \<Rightarrow> string" where
  "direction_text d = (case d of Asc \<Rightarrow> ''ASC'' | Desc \<Rightarrow> ''DESC'')"

fun statement_text :: "statement \<Rightarrow> string" where
  "statement_text (SelectLatest t) =
     ''SELECT * FROM '' @ table_text t @ '' ORDER BY timestamp DESC LIMIT 100''"
| "statement_text (SelectRange t a b) =
     ''SELECT * FROM '' @ table_text t
       @ '' WHERE timestamp BETWEEN ? AND ? ORDER BY timestamp DESC''"
| "statement_text (SelectAverage b d) =
     ''SELECT '' @ bucket_text b @ '' as '' @ bucket_alias b
       @ '', AVG(temperature) as average_temp FROM temperature GROUP BY '' @ bucket_text b
       @ '' ORDER BY '' @ bucket_text b @ '' '' @ direction_text d"
| "statement_text (SelectCount b d) =
     ''SELECT '' @ bucket_text b @ '' as '' @ bucket_alias b
       @ '', COUNT(*) as motion_count FROM motion GROUP BY '' @ bucket_text b
       @ '' ORDER BY '' @ bucket_text b @ '' '' @ direction_text d"
| "statement_text SelectPeakTemperature =
     ''SELECT * FROM temperature ORDER BY temperature DESC LIMIT 1''"
| "statement_text SelectPeakMotion =
     ''SELECT DATE(timestamp) as date, COUNT(*) as motion_count FROM motion GROUP BY DATE(timestamp) ORDER BY COUNT(*) DESC LIMIT 1''"

fun statement_params :: "statement \<Rightarrow> string list" where
  "statement_params (SelectRange t a b) = [a, b]"
| "statement_params _ = []"

text \<open>A text that is one \<^verbatim>\<open>SELECT\<close> statement: it opens with the keyword and holds no
  statement separator.\<close>

definition is_select :: "string \<Rightarrow> bool" where
  "is_select text = (take 7 text = ''SELECT '' \<and> CHR '';'' \<notin> set text)"

subsection \<open>The documented shapes of the responses\<close>

text \<open>
  The response formats of the handlers' docstrings: a reading and an event as JSON
  objects with the native columns, an aggregate as an object of the bucket label and the
  value.
\<close>

definition reading_json :: "temperature_reading \<Rightarrow> json" where
  "reading_json r =
     JObject [(''id'', JNumber (of_int (reading_id r))),
              (''timestamp'', JString (reading_timestamp r)),
              (''temperature'', JNumber (reading_temperature r))]"

definition event_json :: "motion_event \<Rightarrow> json" where
  "event_json e =
     JObject [(''id'', JNumber (of_int (event_id e))),
              (''timestamp'', JString (event_timestamp e)),
              (''motion_detected'', JNumber (of_int (event_motion_detected e)))]"

definition label_json :: "string option \<Rightarrow> json" where
  "label_json l = (case l of None \<Rightarrow> JNull | Some s \<Rightarrow> JString s)"

definition average_json :: "bucket \<Rightarrow> string option \<times> json \<Rightarrow> json" where
  "average_json b entry =
     JObject [(bucket_alias b, label_json (fst entry)), (''average_temp'', snd entry)]"

definition count_json :: "bucket \<Rightarrow> string option \<times> nat \<Rightarrow> json" where
  "count_json b entry =
     JObject [(bucket_alias b, label_json (fst entry)),
              (''motion_count'', JNumber (of_nat (snd entry)))]"


text \<open>The rows of a table that fall into a bucket.\<close>

definition readings_in :: "world \<Rightarrow> bucket \<Rightarrow> string option \<Rightarrow> temperature_reading list" where
  "readings_in w b l =
     filter (\<lambda>r. sql_bucket w b (reading_timestamp r) = l) (temperature_table w)"

definition events_in :: "world \<Rightarrow> bucket \<Rightarrow> string option \<Rightarrow> motion_event list" where
  "events_in w b l = filter (\<lambda>e. sql_bucket w b (event_timestamp e) = l) (motion_table w)"

text \<open>The periodic-aggregate routes and the bucket of each.\<close>

fun average_bucket :: "route \<Rightarrow> bucket option" where
  "average_bucket TemperatureAverageDay = Some Day"
| "average_bucket TemperatureAverageWeek = Some Week"
| "average_bucket TemperatureAverageMonth = Some Month"
| "average_bucket TemperatureByDay = Some Day"
| "average_bucket _ = None"

fun count_bucket :: "route \<Rightarrow> bucket option" where
  "count_bucket MotionByDay = Some Day"
| "count_bucket MotionByHour = Some Hour"
| "count_bucket MotionByWeek = Some Week"
| "count_bucket _ = None"

subsection \<open>A store that averages in doubles\<close>

text \<open>
  IEEE 754 binary64 arithmetic on the rationals: 53 significant bits, exponents from
  -1022 to 1023, rounding to nearest with ties to even, overflow to an infinity. A finite
  double is the rational it denotes.
\<close>

datatype binary64 = Finite rat | PlusInfinity | MinusInfinity

definition pow2 :: "int \<Rightarrow> rat" where
  "pow2 k = (if 0 \<le> k then 2 ^ nat k else 1 / 2 ^ nat (- k))"

text \<open>The nearest integer, the even one of two that are equally near.\<close>

definition round_even :: "rat \<Rightarrow> int" where
  "round_even q =
     (let f = \<lfloor>q\<rfloor>; d = q - of_int f
      in if d < 1 / 2 then f else if 1 / 2 < d then f + 1 else if even f then f else f + 1)"

text \<open>For \<open>0 < q\<close>, the \<open>e\<close> with \<open>pow2 e \<le> q < pow2 (e + 1)\<close>.\<close>

definition exponent :: "rat \<Rightarrow> int" where
  "exponent q =
     (let (n, d) = quotient_of q; k = bitlen n - bitlen d
      in if pow2 k \<le> q then k else k - 1)"

definition round_binary64 :: "rat \<Rightarrow> binary64" where
  "round_binary64 q =
     (if q = 0 then Finite 0
      else
        let a = \<bar>q\<bar>;
            e = max (exponent a) (- 1022);
            ulp = pow2 (e - 52);
            r = of_int (round_even (a / ulp)) * ulp
        in if pow2 1024 \<le> r then (if 0 < q then PlusInfinity else MinusInfinity)
           else Finite (if 0 < q then r else - r))"

text \<open>The running sum plus the next value, and the sum over the count.\<close>

definition double_add :: "binary64 \<Rightarrow> rat \<Rightarrow> binary64" where
  "double_add s x = (case s of Finite v \<Rightarrow> round_binary64 (v + x) | _ \<Rightarrow> s)"

definition double_div :: "binary64 \<Rightarrow> nat \<Rightarrow> binary64" where
  "double_div s n = (case s of Finite v \<Rightarrow> round_binary64 (v / of_nat n) | _ \<Rightarrow> s)"

definition sql_of_binary64 :: "binary64 \<Rightarrow> sql_value" where
  "sql_of_binary64 d =
     (case d of Finite v \<Rightarrow> SqlReal v | PlusInfinity \<Rightarrow> SqlInfinity
        | MinusInfinity \<Rightarrow> SqlMinusInfinity)"

text \<open>\<^verbatim>\<open>AVG\<close> as a store computes it in doubles: the values are added one by one to a
  sum that starts at zero, and the sum is divided by their number; \<^verbatim>\<open>NULL\<close> when there
  is nothing to average.\<close>

definition double_avg :: "rat list \<Rightarrow> sql_value" where
  "double_avg vs =
     (if vs = [] then SqlNull
      else sql_of_binary64 (double_div (fold (\<lambda>x s. double_add s x) vs (Finite 0)) (length vs)))"

subsection \<open>Example worlds and requests\<close>

text \<open>A date function for timestamps written \<^verbatim>\<open>YYYY-MM-DD HH:MM:SS\<close>; the week label is
  a stand-in.\<close>

definition example_bucket :: "bucket \<Rightarrow> string \<Rightarrow> string option" where
  "example_bucket b ts =
     (if length ts < 19 then None
      else Some (case b of Day \<Rightarrow> take 10 ts | Week \<Rightarrow> take 4 ts @ ''-00''
                   | Month \<Rightarrow> take 7 ts | Hour \<Rightarrow> take 2 (drop 11 ts)))"

definition example_readings :: "temperature_reading list" where
  "example_readings =
     [\<lparr>reading_id = 1, reading_timestamp = ''2024-01-05 08:00:00'', reading_temperature = 20\<rparr>,
      \<lparr>reading_id = 2, reading_timestamp = ''2024-01-05 09:30:00'',
        reading_temperature = 43 / 2\<rparr>,
      \<lparr>reading_id = 3, reading_timestamp = ''2024-02-01 10:00:00'', reading_temperature = 18\<rparr>]"

definition example_events :: "motion_event list" where
  "example_events =
     [\<lparr>event_id = 1, event_timestamp = ''2024-01-05 08:10:00'', event_motion_detected = 1\<rparr>,
      \<lparr>event_id = 2, event_timestamp = ''2024-01-05 21:00:00'', event_motion_detected = 1\<rparr>,
      \<lparr>event_id = 3, event_timestamp = ''2024-01-06 08:45:00'', event_motion_detected = 1\<rparr>]"

definition example_world :: world where
  "example_world =
     \<lparr>temperature_table = example_readings,
      motion_table = example_events,
      sql_bucket = example_bucket,
      sql_avg = double_avg,
      store_fault = (\<lambda>q. None),
      issued = [],
      json_dumps = (\<lambda>j. ''{}''),
      chat_completion = (\<lambda>ms. Inr [Some ''  Mild and quiet.  '']),
      prompts = []\<rparr>"

text \<open>The same store with the connection lost, with the service down, with a service
  that answers blanks, and with both tables empty.\<close>

definition faulty_world :: world where
  "faulty_world = example_world\<lparr>store_fault := (\<lambda>q. Some ''connection lost'')\<rparr>"

definition silent_world :: world where
  "silent_world = example_world\<lparr>chat_completion := (\<lambda>ms. Inl ''service unavailable'')\<rparr>"


definition empty_world :: world where
  "empty_world = example_world\<lparr>temperature_table := [], motion_table := []\<rparr>"




text \<open>Tables with rows stamped on the last day of January, one of them at midnight.\<close>

definition month_end_readings :: "temperature_reading list" where
  "month_end_readings =
     [\<lparr>reading_id = 1, reading_timestamp = ''2024-01-05 08:00:00'', reading_temperature = 20\<rparr>,
      \<lparr>reading_id = 2, reading_timestamp = ''2024-01-31 00:00:00'', reading_temperature = 19\<rparr>,
      \<lparr>reading_id = 3, reading_timestamp = ''2024-01-31 12:00:00'', reading_temperature = 21\<rparr>]"

definition month_end_events :: "motion_event list" where
  "month_end_events =
     [\<lparr>event_id = 1, event_timestamp = ''2024-01-05 08:10:00'', event_motion_detected = 1\<rparr>,
      \<lparr>event_id = 2, event_timestamp = ''2024-01-31 00:00:00'', event_motion_detected = 1\<rparr>]"

definition month_end_world :: world where
  "month_end_world =
     example_world\<lparr>temperature_table := month_end_readings, motion_table := month_end_events\<rparr>"

definition january_request :: request where
  "january_request =
     \<lparr>request_json = Inr JNull,
      args = [(''start_date'', ''2024-01-01''), (''end_date'', ''2024-01-31'')]\<rparr>"

definition open_ended_request :: request where
  "open_ended_request =
     \<lparr>request_json = Inr JNull, args = [(''start_date'', ''2024-01-01'')]\<rparr>"

definition temp_request :: request where
  "temp_request =
     \<lparr>request_json = Inr (JObject [(''data'', JObject [(''temp'', JNumber (43 / 2))])]),
      args = []\<rparr>"



section \<open>Properties\<close>

subsection \<open>Running a statement and shaping its rows\<close>

lemma world_after_execute: "snd (execute w q) = w\<lparr>issued := issued w @ [q]\<rparr>"
  by (simp add: execute_def)

lemma run_all_world: "snd (run_all w q) = w\<lparr>issued := issued w @ [q]\<rparr>"
  by (simp add: run_all_def execute_def)

lemma run_one_world: "snd (run_one w q) = w\<lparr>issued := issued w @ [q]\<rparr>"
  by (simp add: run_one_def execute_def)

lemma run_all_fault: "store_fault w q = Some m \<Longrightarrow> fst (run_all w q) = error_response m 500"
  by (simp add: run_all_def execute_def respond_all_def)

lemma run_one_fault: "store_fault w q = Some m \<Longrightarrow> fst (run_one w q) = error_response m 500"
  by (simp add: run_one_def execute_def respond_one_def)

lemma run_all_ok:
  "store_fault w q = None \<Longrightarrow>
   fst (run_all w q) =
     \<lparr>status = 200,
      body = JArray (map (\<lambda>row. json_of_dict (dict (zip (description (run_select w q)) row)))
                      (fetched (run_select w q)))\<rparr>"
  by (simp add: run_all_def execute_def respond_all_def jsonify_def fetchall_def)

lemma status_run_all: "status (fst (run_all w q)) = (if store_fault w q = None then 200 else 500)"
  by (auto simp: run_all_def execute_def respond_all_def jsonify_def error_response_def)

lemma status_run_all_200: "status (fst (run_all w q)) = 200 \<Longrightarrow> store_fault w q = None"
  by (simp add: status_run_all split: if_splits)

lemma status_run_one_200:
  "status (fst (run_one w q)) = 200 \<Longrightarrow> store_fault w q = None \<and> fetched (run_select w q) \<noteq> []"
  by (auto simp: run_one_def execute_def respond_one_def jsonify_def error_response_def fetchone_def
      split: option.splits list.splits)

lemma run_one_ok:
  "store_fault w q = None \<Longrightarrow> fetched (run_select w q) = row # rest \<Longrightarrow>
   fst (run_one w q) =
     \<lparr>status = 200, body = json_of_dict (dict (zip (description (run_select w q)) row))\<rparr>"
  by (simp add: run_one_def execute_def respond_one_def jsonify_def fetchone_def)

lemma run_one_empty:
  "store_fault w q = None \<Longrightarrow> fetched (run_select w q) = [] \<Longrightarrow>
   fst (run_one w q) = error_response zip_none_message 500"
  by (simp add: run_one_def execute_def respond_one_def fetchone_def)

lemma temperature_dict:
  "json_of_dict (dict (zip temperature_columns (temperature_row r))) = reading_json r"
  by (simp add: json_of_dict_def dict_def temperature_columns_def temperature_row_def
      reading_json_def)

lemma motion_dict: "json_of_dict (dict (zip motion_columns (motion_row e))) = event_json e"
  by (simp add: json_of_dict_def dict_def motion_columns_def motion_row_def event_json_def)

lemma pair_dict:
  "k \<noteq> k' \<Longrightarrow>
   json_of_dict (dict [(k, a), (k', b)]) = JObject [(k, json_of_sql a), (k', json_of_sql b)]"
  by (simp add: json_of_dict_def dict_def)

lemma alias_not_value:
  "bucket_alias b \<noteq> ''average_temp''" "bucket_alias b \<noteq> ''motion_count''"
  by (cases b; simp add: bucket_alias_def)+

lemma json_of_label: "json_of_sql (label_value l) = label_json l"
  by (cases l) (simp_all add: label_value_def label_json_def)

lemma mset_order_by_desc: "mset (order_by_desc key xs) = mset xs"
  by (simp add: order_by_desc_def)

lemma set_order_by_desc: "set (order_by_desc key xs) = set xs"
  by (simp add: order_by_desc_def)

lemma length_order_by_desc: "length (order_by_desc key xs) = length xs"
  by (simp add: order_by_desc_def)

lemma sorted_order_by_desc: "sorted_wrt (\<lambda>x y. key y \<le> key x) (order_by_desc key xs)"
proof -
  have "sorted_wrt (\<lambda>x y. key x \<le> key y) (sort_key key xs)"
    using sorted_sort_key [of key xs] by (simp add: sorted_wrt_map)
  then show ?thesis
    by (simp add: order_by_desc_def sorted_wrt_rev)
qed

lemma set_order_by: "set (order_by d key xs) = set xs"
  by (cases d) (simp_all add: order_by_def order_by_desc_def)

lemma mset_order_by: "mset (order_by d key xs) = mset xs"
  by (cases d) (simp_all add: order_by_def order_by_desc_def)

lemma map_fst_group_by: "map fst (group_by key xs) = remdups (map key xs)"
  by (simp add: group_by_def comp_def)

lemma group_by_entry:
  assumes "(k, g) \<in> set (group_by key xs)"
  shows "k \<in> key ` set xs" and "g = filter (\<lambda>x. key x = k) xs" and "g \<noteq> []"
proof -
  from assms show k: "k \<in> key ` set xs" and g: "g = filter (\<lambda>x. key x = k) xs"
    by (auto simp: group_by_def)
  from k obtain x where "x \<in> set xs" "key x = k" by auto
  then have "x \<in> set g" using g by simp
  then show "g \<noteq> []" by auto
qed

lemma group_by_keys: "fst ` set (group_by key xs) = key ` set xs"
proof -
  have "fst ` set (group_by key xs) = set (map fst (group_by key xs))" by simp
  also have "\<dots> = key ` set xs" by (simp only: map_fst_group_by set_remdups set_map)
  finally show ?thesis .
qed

lemma distinct_group_by: "distinct (map fst (group_by key xs))"
  by (simp only: map_fst_group_by distinct_remdups)

lemma distinct_order_by_groups: "distinct (map fst (order_by d fst (group_by key xs)))"
proof -
  have "mset (map fst (order_by d fst (group_by key xs))) = mset (map fst (group_by key xs))"
    by (simp add: mset_order_by)
  then show ?thesis
    using distinct_group_by [of key xs] by (metis mset_eq_imp_distinct_iff)
qed

subsection \<open>Range fetch without a bound\<close>

text \<open>
  Claim C2. For every GET request to /data/temperature/range or /data/motion/range in
  which the \<^verbatim>\<open>start_date\<close> or the \<^verbatim>\<open>end_date\<close> query parameter is absent or empty, the
  response has status 400, its body holds an \<^verbatim>\<open>error\<close> key, and no SQL statement is
  issued: the trace of the store is what it was.
\<close>

theorem range_missing_bound:
  assumes "r = TemperatureRange \<or> r = MotionRange"
    and "not_str (args_get req ''start_date'') \<or> not_str (args_get req ''end_date'')"
  shows "status (fst (handle w r req)) = 400
       \<and> body (fst (handle w r req)) =
           JObject [(''error'', JString ''Start date and end date are required'')]
       \<and> issued (snd (handle w r req)) = issued w"
  using assms
  by (auto simp: get_temperature_in_range_def get_motion_in_range_def error_response_def
      jsonify_def)

theorem range_missing_bound_witness:
  "not_str (args_get open_ended_request ''end_date'')
   \<and> status (fst (handle example_world MotionRange open_ended_request)) = 400
   \<and> body (fst (handle example_world MotionRange open_ended_request)) =
       JObject [(''error'', JString ''Start date and end date are required'')]
   \<and> issued (snd (handle example_world MotionRange open_ended_request)) = issued example_world"
proof -
  have h: "not_str (args_get open_ended_request ''end_date'')"
    by (simp add: not_str_def args_get_def open_ended_request_def)
  show ?thesis
    using h range_missing_bound [of MotionRange open_ended_request example_world] by simp
qed

subsection \<open>Peak fetch on an empty table\<close>

text \<open>
  Claim C10. A GET request to /data/temperature/peak when the temperature table is empty,
  and to /data/motion/peak when the motion table is empty, is answered with the 500 error
  envelope, never with a 200: the message is the store's when the statement itself
  raises, and otherwise that of the \<^verbatim>\<open>TypeError\<close> raised on the row that
  \<^verbatim>\<open>fetchone\<close> did not find.
\<close>

theorem peak_of_empty_table:
  "(temperature_table w = [] \<longrightarrow>
      fst (handle w TemperaturePeak req) =
        \<lparr>status = 500,
         body = JObject [(''error'', JString
                   (case store_fault w SelectPeakTemperature of
                      None \<Rightarrow> zip_none_message | Some m \<Rightarrow> m))]\<rparr>)
   \<and> (motion_table w = [] \<longrightarrow>
      fst (handle w MotionPeak req) =
        \<lparr>status = 500,
         body = JObject [(''error'', JString
                   (case store_fault w SelectPeakMotion of
                      None \<Rightarrow> zip_none_message | Some m \<Rightarrow> m))]\<rparr>)"
proof (intro conjI impI)
  assume e: "temperature_table w = []"
  have f: "fetched (run_select w SelectPeakTemperature) = []"
    by (simp add: e order_by_desc_def)
  show "fst (handle w TemperaturePeak req) =
        \<lparr>status = 500,
         body = JObject [(''error'', JString
                   (case store_fault w SelectPeakTemperature of
                      None \<Rightarrow> zip_none_message | Some m \<Rightarrow> m))]\<rparr>"
  proof (cases "store_fault w SelectPeakTemperature")
    case None
    then show ?thesis
      using run_one_empty [OF None f]
      by (simp add: get_peak_temperature_def error_response_def jsonify_def)
  next
    case (Some m)
    then show ?thesis
      using run_one_fault [OF Some]
      by (simp add: get_peak_temperature_def error_response_def jsonify_def)
  qed
next
  assume e: "motion_table w = []"
  have f: "fetched (run_select w SelectPeakMotion) = []"
    by (simp add: e order_by_desc_def group_by_def)
  show "fst (handle w MotionPeak req) =
        \<lparr>status = 500,
         body = JObject [(''error'', JString
                   (case store_fault w SelectPeakMotion of
                      None \<Rightarrow> zip_none_message | Some m \<Rightarrow> m))]\<rparr>"
  proof (cases "store_fault w SelectPeakMotion")
    case None
    then show ?thesis
      using run_one_empty [OF None f]
      by (simp add: get_peak_motion_def error_response_def jsonify_def)
  next
    case (Some m)
    then show ?thesis
      using run_one_fault [OF Some]
      by (simp add: get_peak_motion_def error_response_def jsonify_def)
  qed
qed

theorem peak_of_empty_table_witness:
  "temperature_table empty_world = [] \<and> motion_table empty_world = []
   \<and> fst (handle empty_world TemperaturePeak january_request) =
       \<lparr>status = 500, body = JObject [(''error'', JString zip_none_message)]\<rparr>
   \<and> fst (handle empty_world MotionPeak january_request) =
       \<lparr>status = 500, body = JObject [(''error'', JString zip_none_message)]\<rparr>"
proof -
  have h: "temperature_table empty_world = []" "motion_table empty_world = []"
    by (simp_all add: empty_world_def)
  have n: "store_fault empty_world SelectPeakTemperature = None"
    "store_fault empty_world SelectPeakMotion = None"
    by (simp_all add: empty_world_def example_world_def)
  show ?thesis
    using h n peak_of_empty_table [of empty_world january_request] by simp
qed

subsection \<open>Failures of the store and of the service\<close>

lemmas handler_defs =
  get_temperature_data_def get_motion_data_def get_daily_temperature_average_def
  get_weekly_temperature_average_def get_monthly_temperature_average_def
  get_motion_by_day_def get_temperature_by_day_def get_motion_by_hour_def
  get_motion_by_week_def get_temperature_in_range_def get_motion_in_range_def
  get_peak_temperature_def get_peak_motion_def

lemma summary_world:
  "snd (get_summary w req) = w
   \<or> snd (get_summary w req) =
        w\<lparr>prompts := prompts w @
           [[(''system'', system_prompt),
             (''user'', user_prompt (json_dumps w (projr (request_json req))))]]\<rparr>"
  by (simp add: get_summary_def Let_def split: sum.splits list.splits option.splits)

lemma issued_after_summary: "issued (snd (get_summary w req)) = issued w"
  using summary_world [of w req] by auto

lemma issued_after_handle:
  "issued (snd (handle w r req)) = issued w \<or> (\<exists>q. issued (snd (handle w r req)) = issued w @ [q])"
  by (cases r) (simp_all add: handler_defs run_all_world run_one_world issued_after_summary Let_def)

lemma store_failure_500:
  assumes "issued (snd (handle w r req)) = issued w @ [q]" and "store_fault w q = Some m"
  shows "fst (handle w r req) = error_response m 500"
  using assms
  by (cases r)
    (auto simp: handler_defs run_all_world run_one_world run_all_fault run_one_fault
      issued_after_summary Let_def split: if_splits)

lemma service_failure_500:
  assumes "request_json req = Inr data" and "truthy data"
    and "chat_completion w [(''system'', system_prompt),
           (''user'', user_prompt (json_dumps w data))] = Inl m"
  shows "fst (get_summary w req) = error_response m 500"
    and "prompts (snd (get_summary w req)) =
           prompts w @ [[(''system'', system_prompt), (''user'', user_prompt (json_dumps w data))]]"
  using assms by (simp_all add: get_summary_def Let_def)

text \<open>
  Claim C8. On every route, when the statement the handler issues raises at the store,
  or when the external text-generation call raises, the response has status 500 and its
  body is exactly \<open>{error: m}\<close> with \<open>m\<close> the message of the exception. Nothing is
  retried: a handler issues at most one statement, and the summary handler, when the
  service raises, has called it once.
\<close>

theorem failures_surface:
  "(issued (snd (handle w r req)) = issued w @ [q] \<and> store_fault w q = Some m \<longrightarrow>
      fst (handle w r req) = \<lparr>status = 500, body = JObject [(''error'', JString m)]\<rparr>)
   \<and> length (issued (snd (handle w r req))) \<le> Suc (length (issued w))
   \<and> (request_json req = Inr data \<and> truthy data
        \<and> chat_completion w [(''system'', system_prompt),
             (''user'', user_prompt (json_dumps w data))] = Inl m \<longrightarrow>
      fst (handle w Summarize req) = \<lparr>status = 500, body = JObject [(''error'', JString m)]\<rparr>
      \<and> length (prompts (snd (handle w Summarize req))) = Suc (length (prompts w)))"
proof (intro conjI impI)
  assume "issued (snd (handle w r req)) = issued w @ [q] \<and> store_fault w q = Some m"
  then show "fst (handle w r req) = \<lparr>status = 500, body = JObject [(''error'', JString m)]\<rparr>"
    using store_failure_500 [of w r req q m] by (simp add: error_response_def jsonify_def)
next
  show "length (issued (snd (handle w r req))) \<le> Suc (length (issued w))"
    using issued_after_handle [of w r req] by auto
next
  assume a: "request_json req = Inr data \<and> truthy data
        \<and> chat_completion w [(''system'', system_prompt),
             (''user'', user_prompt (json_dumps w data))] = Inl m"
  then show "fst (handle w Summarize req) =
      \<lparr>status = 500, body = JObject [(''error'', JString m)]\<rparr>"
    using service_failure_500(1) [of req data w m] by (simp add: error_response_def jsonify_def)
  from a show "length (prompts (snd (handle w Summarize req))) = Suc (length (prompts w))"
    using service_failure_500(2) [of req data w m] by simp
qed

theorem failures_surface_witness:
  "issued (snd (handle faulty_world DataTemperature january_request)) =
     issued faulty_world @ [SelectLatest Temperature]
   \<and> store_fault faulty_world (SelectLatest Temperature) = Some ''connection lost''
   \<and> fst (handle faulty_world DataTemperature january_request) =
       \<lparr>status = 500, body = JObject [(''error'', JString ''connection lost'')]\<rparr>
   \<and> request_json temp_request = Inr (JObject [(''data'', JObject [(''temp'', JNumber (43 / 2))])])
   \<and> truthy (JObject [(''data'', JObject [(''temp'', JNumber (43 / 2))])])
   \<and> chat_completion silent_world [(''system'', system_prompt),
        (''user'', user_prompt (json_dumps silent_world
           (JObject [(''data'', JObject [(''temp'', JNumber (43 / 2))])])))] =
       Inl ''service unavailable''
   \<and> fst (handle silent_world Summarize temp_request) =
       \<lparr>status = 500, body = JObject [(''error'', JString ''service unavailable'')]\<rparr>"
proof -
  have a: "issued (snd (handle faulty_world DataTemperature january_request)) =
     issued faulty_world @ [SelectLatest Temperature]"
    by (simp add: get_temperature_data_def run_all_world)
  have b: "store_fault faulty_world (SelectLatest Temperature) = Some ''connection lost''"
    by (simp add: faulty_world_def)
  have c: "request_json temp_request =
      Inr (JObject [(''data'', JObject [(''temp'', JNumber (43 / 2))])])"
    by (simp add: temp_request_def)
  have d: "truthy (JObject [(''data'', JObject [(''temp'', JNumber (43 / 2))])])"
    by simp
  have e: "chat_completion silent_world [(''system'', system_prompt),
        (''user'', user_prompt (json_dumps silent_world
           (JObject [(''data'', JObject [(''temp'', JNumber (43 / 2))])])))] =
       Inl ''service unavailable''"
    by (simp add: silent_world_def)
  show ?thesis
    using a b c d e
      failures_surface [of faulty_world DataTemperature january_request
        "SelectLatest Temperature" "''connection lost''"]
      failures_surface [of silent_world Summarize temp_request _ "''service unavailable''"
        "JObject [(''data'', JObject [(''temp'', JNumber (43 / 2))])]"]
    by simp
qed

subsection \<open>Nothing is written\<close>

lemma every_statement_is_select: "is_select (statement_text q)"
proof (cases q)
  case (SelectLatest t)
  then show ?thesis by (cases t) (simp_all add: is_select_def table_text_def)
next
  case (SelectRange t a b)
  then show ?thesis by (cases t) (simp_all add: is_select_def table_text_def)
next
  case (SelectAverage b d)
  then show ?thesis
    by (cases b; cases d)
      (simp_all add: is_select_def bucket_text_def bucket_alias_def direction_text_def)
next
  case (SelectCount b d)
  then show ?thesis
    by (cases b; cases d)
      (simp_all add: is_select_def bucket_text_def bucket_alias_def direction_text_def)
next
  case SelectPeakTemperature
  then show ?thesis by (simp add: is_select_def)
next
  case SelectPeakMotion
  then show ?thesis by (simp add: is_select_def)
qed

lemma run_select_traces:
  "run_select (w\<lparr>issued := i, prompts := p\<rparr>) q = run_select w q"
proof (cases q)
  case (SelectLatest t)
  then show ?thesis by (cases t) simp_all
next
  case (SelectRange t a b)
  then show ?thesis by (cases t) simp_all
qed simp_all

lemma run_all_traces: "fst (run_all (w\<lparr>issued := i, prompts := p\<rparr>) q) = fst (run_all w q)"
  by (simp add: run_all_def execute_def run_select_traces split: option.splits)

lemma run_one_traces: "fst (run_one (w\<lparr>issued := i, prompts := p\<rparr>) q) = fst (run_one w q)"
  by (simp add: run_one_def execute_def run_select_traces split: option.splits)

lemma summary_traces:
  "fst (get_summary (w\<lparr>issued := i, prompts := p\<rparr>) req) = fst (get_summary w req)"
  by (simp add: get_summary_def Let_def split: sum.splits list.splits option.splits)

lemma tables_after_summary:
  "temperature_table (snd (get_summary w req)) = temperature_table w"
  "motion_table (snd (get_summary w req)) = motion_table w"
  using summary_world [of w req] by auto

text \<open>
  Claim C9. Handling a request on any route leaves the temperature and the motion table
  as they were; every SQL statement the gateway issues is a single \<^verbatim>\<open>SELECT\<close>; and
  the gateway keeps no state of its own from one request to the next: the response does
  not depend on the traces, which are all that earlier requests leave behind.
\<close>

theorem handlers_read_only:
  "temperature_table (snd (handle w r req)) = temperature_table w
   \<and> motion_table (snd (handle w r req)) = motion_table w
   \<and> (\<exists>qs. issued (snd (handle w r req)) = issued w @ qs
          \<and> (\<forall>q \<in> set qs. is_select (statement_text q)))
   \<and> fst (handle (w\<lparr>issued := i, prompts := p\<rparr>) r req) = fst (handle w r req)"
proof (intro conjI)
  show "temperature_table (snd (handle w r req)) = temperature_table w"
    by (cases r)
      (simp_all add: handler_defs run_all_world run_one_world tables_after_summary Let_def)
  show "motion_table (snd (handle w r req)) = motion_table w"
    by (cases r)
      (simp_all add: handler_defs run_all_world run_one_world tables_after_summary Let_def)
  show "\<exists>qs. issued (snd (handle w r req)) = issued w @ qs
          \<and> (\<forall>q \<in> set qs. is_select (statement_text q))"
  proof -
    from issued_after_handle [of w r req]
    consider "issued (snd (handle w r req)) = issued w @ []"
      | q where "issued (snd (handle w r req)) = issued w @ [q]"
      by auto
    then show ?thesis
    proof cases
      case 1
      then show ?thesis by (intro exI [of _ "[]"]) simp
    next
      case (2 q)
      then show ?thesis
        by (intro exI [of _ "[q]"]) (simp add: every_statement_is_select)
    qed
  qed
  show "fst (handle (w\<lparr>issued := i, prompts := p\<rparr>) r req) = fst (handle w r req)"
    by (cases r)
      (simp_all add: handler_defs run_all_traces run_one_traces summary_traces Let_def)
qed

theorem handlers_read_only_witness:
  "temperature_table (snd (handle example_world MotionByHour january_request)) = example_readings
   \<and> motion_table (snd (handle example_world MotionByHour january_request)) = example_events
   \<and> issued (snd (handle example_world MotionByHour january_request)) = [SelectCount Hour Asc]
   \<and> is_select (statement_text (SelectCount Hour Asc))"
proof -
  have a: "issued (snd (handle example_world MotionByHour january_request)) =
      issued example_world @ [SelectCount Hour Asc]"
    by (simp add: get_motion_by_hour_def run_all_world)
  have b: "issued example_world = []" "temperature_table example_world = example_readings"
    "motion_table example_world = example_events"
    by (simp_all add: example_world_def)
  from handlers_read_only [of example_world MotionByHour january_request]
  obtain qs where t: "temperature_table (snd (handle example_world MotionByHour january_request))
        = temperature_table example_world"
      "motion_table (snd (handle example_world MotionByHour january_request))
        = motion_table example_world"
    and qs: "issued (snd (handle example_world MotionByHour january_request)) =
        issued example_world @ qs" "\<forall>q \<in> set qs. is_select (statement_text q)"
    by blast
  from a qs(1) have "qs = [SelectCount Hour Asc]" by simp
  with qs(2) have "is_select (statement_text (SelectCount Hour Asc))" by simp
  with a b t show ?thesis by simp
qed

subsection \<open>The presence check of the summary handler\<close>




text \<open>The whitespace that is dropped is Unicode's, not only that of ASCII: a no-break
  space in front and a line separator behind go too.\<close>

lemma strip_unicode:
  "strip ([CHR 0xC2, CHR 0xA0] @ ''x y'' @ [CHR 0xE2, CHR 0x80, CHR 0xA8, CHR 0x0A]) = ''x y''"
  by (simp add: strip_def whitespace_def)

subsection \<open>Range fetch\<close>

lemma temperature_range_ok:
  assumes "status (fst (get_temperature_in_range w req)) = 200"
  shows "\<exists>a b. args_get req ''start_date'' = Some a \<and> args_get req ''end_date'' = Some b
     \<and> fst (run_all w (SelectRange Temperature a b)) = fst (get_temperature_in_range w req)
     \<and> store_fault w (SelectRange Temperature a b) = None"
proof -
  have n: "\<not> (not_str (args_get req ''start_date'') \<or> not_str (args_get req ''end_date''))"
    using assms
    by (auto simp: get_temperature_in_range_def error_response_def jsonify_def Let_def)
  then obtain a b where ab: "args_get req ''start_date'' = Some a"
    "args_get req ''end_date'' = Some b"
    by (auto simp: not_str_def split: option.splits)
  with n have eq: "get_temperature_in_range w req = run_all w (SelectRange Temperature a b)"
    by (simp add: get_temperature_in_range_def Let_def)
  with assms have "store_fault w (SelectRange Temperature a b) = None"
    by (simp add: status_run_all_200)
  with ab eq show ?thesis by simp
qed

lemma motion_range_ok:
  assumes "status (fst (get_motion_in_range w req)) = 200"
  shows "\<exists>a b. args_get req ''start_date'' = Some a \<and> args_get req ''end_date'' = Some b
     \<and> fst (run_all w (SelectRange Motion a b)) = fst (get_motion_in_range w req)
     \<and> store_fault w (SelectRange Motion a b) = None"
proof -
  have n: "\<not> (not_str (args_get req ''start_date'') \<or> not_str (args_get req ''end_date''))"
    using assms
    by (auto simp: get_motion_in_range_def error_response_def jsonify_def Let_def)
  then obtain a b where ab: "args_get req ''start_date'' = Some a"
    "args_get req ''end_date'' = Some b"
    by (auto simp: not_str_def split: option.splits)
  with n have eq: "get_motion_in_range w req = run_all w (SelectRange Motion a b)"
    by (simp add: get_motion_in_range_def Let_def)
  with assms have "store_fault w (SelectRange Motion a b) = None"
    by (simp add: status_run_all_200)
  with ab eq show ?thesis by simp
qed

text \<open>
  What a range handler returns when it answers 200: both bounds were present, and the
  array holds exactly the rows whose timestamp, compared as text, is at or after
  \<^verbatim>\<open>start_date\<close> and at or before \<^verbatim>\<open>end_date\<close>, newest first.
\<close>

lemma range_fetch_text_order:
  "(status (fst (handle w TemperatureRange req)) = 200 \<longrightarrow>
      (\<exists>a b rs. args_get req ''start_date'' = Some a \<and> args_get req ''end_date'' = Some b
         \<and> body (fst (handle w TemperatureRange req)) = JArray (map reading_json rs)
         \<and> mset rs =
             filter_mset (\<lambda>r. a \<le> reading_timestamp r \<and> reading_timestamp r \<le> b)
               (mset (temperature_table w))
         \<and> sorted_wrt (\<lambda>x y. reading_timestamp y \<le> reading_timestamp x) rs))
   \<and> (status (fst (handle w MotionRange req)) = 200 \<longrightarrow>
      (\<exists>a b es. args_get req ''start_date'' = Some a \<and> args_get req ''end_date'' = Some b
         \<and> body (fst (handle w MotionRange req)) = JArray (map event_json es)
         \<and> mset es =
             filter_mset (\<lambda>e. a \<le> event_timestamp e \<and> event_timestamp e \<le> b)
               (mset (motion_table w))
         \<and> sorted_wrt (\<lambda>x y. event_timestamp y \<le> event_timestamp x) es))"
proof (intro conjI impI)
  assume "status (fst (handle w TemperatureRange req)) = 200"
  then have "status (fst (get_temperature_in_range w req)) = 200" by simp
  from temperature_range_ok [OF this] obtain a b
    where ab: "args_get req ''start_date'' = Some a" "args_get req ''end_date'' = Some b"
      and eq: "fst (run_all w (SelectRange Temperature a b)) = fst (get_temperature_in_range w req)"
      and ok: "store_fault w (SelectRange Temperature a b) = None"
    by blast
  define rs where "rs = order_by_desc reading_timestamp
    (filter (\<lambda>r. between a b (reading_timestamp r)) (temperature_table w))"
  have "body (fst (handle w TemperatureRange req)) = JArray (map reading_json rs)"
    using eq [symmetric] run_all_ok [OF ok] by (simp add: temperature_dict rs_def)
  moreover have "mset rs =
      filter_mset (\<lambda>r. a \<le> reading_timestamp r \<and> reading_timestamp r \<le> b)
        (mset (temperature_table w))"
    by (simp add: rs_def mset_order_by_desc between_def)
  moreover have "sorted_wrt (\<lambda>x y. reading_timestamp y \<le> reading_timestamp x) rs"
    unfolding rs_def by (rule sorted_order_by_desc)
  ultimately show "\<exists>a b rs. args_get req ''start_date'' = Some a
      \<and> args_get req ''end_date'' = Some b
      \<and> body (fst (handle w TemperatureRange req)) = JArray (map reading_json rs)
      \<and> mset rs =
          filter_mset (\<lambda>r. a \<le> reading_timestamp r \<and> reading_timestamp r \<le> b)
            (mset (temperature_table w))
      \<and> sorted_wrt (\<lambda>x y. reading_timestamp y \<le> reading_timestamp x) rs"
    using ab by blast
next
  assume "status (fst (handle w MotionRange req)) = 200"
  then have "status (fst (get_motion_in_range w req)) = 200" by simp
  from motion_range_ok [OF this] obtain a b
    where ab: "args_get req ''start_date'' = Some a" "args_get req ''end_date'' = Some b"
      and eq: "fst (run_all w (SelectRange Motion a b)) = fst (get_motion_in_range w req)"
      and ok: "store_fault w (SelectRange Motion a b) = None"
    by blast
  define es where "es = order_by_desc event_timestamp
    (filter (\<lambda>e. between a b (event_timestamp e)) (motion_table w))"
  have "body (fst (handle w MotionRange req)) = JArray (map event_json es)"
    using eq [symmetric] run_all_ok [OF ok] by (simp add: motion_dict es_def)
  moreover have "mset es =
      filter_mset (\<lambda>e. a \<le> event_timestamp e \<and> event_timestamp e \<le> b)
        (mset (motion_table w))"
    by (simp add: es_def mset_order_by_desc between_def)
  moreover have "sorted_wrt (\<lambda>x y. event_timestamp y \<le> event_timestamp x) es"
    unfolding es_def by (rule sorted_order_by_desc)
  ultimately show "\<exists>a b es. args_get req ''start_date'' = Some a
      \<and> args_get req ''end_date'' = Some b
      \<and> body (fst (handle w MotionRange req)) = JArray (map event_json es)
      \<and> mset es =
          filter_mset (\<lambda>e. a \<le> event_timestamp e \<and> event_timestamp e \<le> b)
            (mset (motion_table w))
      \<and> sorted_wrt (\<lambda>x y. event_timestamp y \<le> event_timestamp x) es"
    using ab by blast
qed

text \<open>
  Claim C3. For every successful GET /data/temperature/range or /data/motion/range
  request with both bounds present, the returned array holds exactly the rows whose
  timestamp lies between \<^verbatim>\<open>start_date\<close> and \<^verbatim>\<open>end_date\<close>, both included, newest first.
  The bounds are dates \<^verbatim>\<open>YYYY-MM-DD\<close>, as the docstrings of the two handlers say, and the
  timestamps carry a time of day; the statement compares the two as text, so every row
  stamped on the end date comes after the bound. With \<^verbatim>\<open>start_date=2024-01-01\<close> and
  \<^verbatim>\<open>end_date=2024-01-31\<close> the rows stamped on 31 January are left out, even the one
  stamped at midnight: the code returns the row of 5 January alone.
\<close>

theorem range_fetch_end_day_left_out:
  "args_get january_request ''start_date'' = Some ''2024-01-01''
   \<and> args_get january_request ''end_date'' = Some ''2024-01-31''
   \<and> map reading_timestamp (temperature_table month_end_world) =
       [''2024-01-05 08:00:00'', ''2024-01-31 00:00:00'', ''2024-01-31 12:00:00'']
   \<and> fst (handle month_end_world TemperatureRange january_request) =
       \<lparr>status = 200,
        body = JArray
          [JObject [(''id'', JNumber 1), (''timestamp'', JString ''2024-01-05 08:00:00''),
                    (''temperature'', JNumber 20)]]\<rparr>
   \<and> map event_timestamp (motion_table month_end_world) =
       [''2024-01-05 08:10:00'', ''2024-01-31 00:00:00'']
   \<and> fst (handle month_end_world MotionRange january_request) =
       \<lparr>status = 200,
        body = JArray
          [JObject [(''id'', JNumber 1), (''timestamp'', JString ''2024-01-05 08:10:00''),
                    (''motion_detected'', JNumber 1)]]\<rparr>"
proof -
  have a: "store_fault month_end_world (SelectRange Temperature ''2024-01-01'' ''2024-01-31'') = None"
    "store_fault month_end_world (SelectRange Motion ''2024-01-01'' ''2024-01-31'') = None"
    by (simp_all add: month_end_world_def example_world_def)
  have b: "args_get january_request ''start_date'' = Some ''2024-01-01''"
    "args_get january_request ''end_date'' = Some ''2024-01-31''"
    by (simp_all add: args_get_def january_request_def)
  have c: "map reading_timestamp (temperature_table month_end_world) =
       [''2024-01-05 08:00:00'', ''2024-01-31 00:00:00'', ''2024-01-31 12:00:00'']"
    "map event_timestamp (motion_table month_end_world) =
       [''2024-01-05 08:10:00'', ''2024-01-31 00:00:00'']"
    by (simp_all add: month_end_world_def month_end_readings_def month_end_events_def)
  have d: "fst (handle month_end_world TemperatureRange january_request) =
       \<lparr>status = 200,
        body = JArray
          [JObject [(''id'', JNumber 1), (''timestamp'', JString ''2024-01-05 08:00:00''),
                    (''temperature'', JNumber 20)]]\<rparr>"
    using run_all_ok [OF a(1)]
    by (simp add: get_temperature_in_range_def b not_str_def month_end_world_def
        month_end_readings_def between_def order_by_desc_def temperature_dict
        reading_json_def)
  have e: "fst (handle month_end_world MotionRange january_request) =
       \<lparr>status = 200,
        body = JArray
          [JObject [(''id'', JNumber 1), (''timestamp'', JString ''2024-01-05 08:10:00''),
                    (''motion_detected'', JNumber 1)]]\<rparr>"
    using run_all_ok [OF a(2)]
    by (simp add: get_motion_in_range_def b not_str_def month_end_world_def
        month_end_events_def between_def order_by_desc_def motion_dict event_json_def)
  from b c d e show ?thesis by (simp only: simp_thms)
qed

subsection \<open>Raw fetch\<close>

lemma take_drop_order:
  assumes "sorted_wrt R xs"
  shows "\<forall>x \<in> set (take n xs). \<forall>y \<in> set (drop n xs). R x y"
proof -
  have "sorted_wrt R (take n xs @ drop n xs)" using assms by simp
  then show ?thesis by (simp only: sorted_wrt_append) blast
qed

lemma latest_rows:
  fixes key :: "'a \<Rightarrow> string"
  defines "sorted_rows xs \<equiv> order_by_desc key xs"
  shows "length (take 100 (sorted_rows xs)) \<le> 100"
    and "length (take 100 (sorted_rows xs)) = min 100 (length xs)"
    and "sorted_wrt (\<lambda>x y. key y \<le> key x) (take 100 (sorted_rows xs))"
    and "mset (take 100 (sorted_rows xs)) + mset (drop 100 (sorted_rows xs)) = mset xs"
    and "\<forall>x \<in> set (take 100 (sorted_rows xs)). \<forall>y \<in> set (drop 100 (sorted_rows xs)).
           key y \<le> key x"
proof -
  show "length (take 100 (sorted_rows xs)) \<le> 100" by simp
  show "length (take 100 (sorted_rows xs)) = min 100 (length xs)"
    by (simp add: sorted_rows_def length_order_by_desc min.commute)
  have s: "sorted_wrt (\<lambda>x y. key y \<le> key x) (sorted_rows xs)"
    unfolding sorted_rows_def by (rule sorted_order_by_desc)
  then show "sorted_wrt (\<lambda>x y. key y \<le> key x) (take 100 (sorted_rows xs))"
    by (rule sorted_wrt_take)
  have "mset (take 100 (sorted_rows xs) @ drop 100 (sorted_rows xs)) = mset xs"
    by (simp add: sorted_rows_def mset_order_by_desc)
  then show "mset (take 100 (sorted_rows xs)) + mset (drop 100 (sorted_rows xs)) = mset xs"
    by (simp only: mset_append)
  show "\<forall>x \<in> set (take 100 (sorted_rows xs)). \<forall>y \<in> set (drop 100 (sorted_rows xs)).
           key y \<le> key x"
    using take_drop_order [OF s, of 100] by blast
qed

text \<open>
  Claim C4. For every successful GET /data/temperature or GET /data/motion request, the
  returned array has at most 100 elements (100, or the whole table when it is smaller),
  is sorted by timestamp in descending order, and consists of the most recently
  timestamped rows of the table, each with all its native columns: no row left out is
  newer than a row returned.
\<close>

theorem raw_fetch_latest:
  "(status (fst (handle w DataTemperature req)) = 200 \<longrightarrow>
      (\<exists>rs rest. body (fst (handle w DataTemperature req)) = JArray (map reading_json rs)
         \<and> length rs \<le> 100
         \<and> length rs = min 100 (length (temperature_table w))
         \<and> sorted_wrt (\<lambda>x y. reading_timestamp y \<le> reading_timestamp x) rs
         \<and> mset rs + mset rest = mset (temperature_table w)
         \<and> (\<forall>x \<in> set rs. \<forall>y \<in> set rest. reading_timestamp y \<le> reading_timestamp x)))
   \<and> (status (fst (handle w DataMotion req)) = 200 \<longrightarrow>
      (\<exists>es rest. body (fst (handle w DataMotion req)) = JArray (map event_json es)
         \<and> length es \<le> 100
         \<and> length es = min 100 (length (motion_table w))
         \<and> sorted_wrt (\<lambda>x y. event_timestamp y \<le> event_timestamp x) es
         \<and> mset es + mset rest = mset (motion_table w)
         \<and> (\<forall>x \<in> set es. \<forall>y \<in> set rest. event_timestamp y \<le> event_timestamp x)))"
proof (intro conjI impI)
  assume "status (fst (handle w DataTemperature req)) = 200"
  then have ok: "store_fault w (SelectLatest Temperature) = None"
    by (simp add: get_temperature_data_def status_run_all_200)
  let ?s = "order_by_desc reading_timestamp (temperature_table w)"
  have b: "body (fst (handle w DataTemperature req)) = JArray (map reading_json (take 100 ?s))"
    using run_all_ok [OF ok] by (simp add: get_temperature_data_def temperature_dict)
  show "\<exists>rs rest. body (fst (handle w DataTemperature req)) = JArray (map reading_json rs)
         \<and> length rs \<le> 100
         \<and> length rs = min 100 (length (temperature_table w))
         \<and> sorted_wrt (\<lambda>x y. reading_timestamp y \<le> reading_timestamp x) rs
         \<and> mset rs + mset rest = mset (temperature_table w)
         \<and> (\<forall>x \<in> set rs. \<forall>y \<in> set rest. reading_timestamp y \<le> reading_timestamp x)"
    using b latest_rows [of reading_timestamp "temperature_table w"]
    by (intro exI [of _ "take 100 ?s"] exI [of _ "drop 100 ?s"]) blast
next
  assume "status (fst (handle w DataMotion req)) = 200"
  then have ok: "store_fault w (SelectLatest Motion) = None"
    by (simp add: get_motion_data_def status_run_all_200)
  let ?s = "order_by_desc event_timestamp (motion_table w)"
  have b: "body (fst (handle w DataMotion req)) = JArray (map event_json (take 100 ?s))"
    using run_all_ok [OF ok] by (simp add: get_motion_data_def motion_dict)
  show "\<exists>es rest. body (fst (handle w DataMotion req)) = JArray (map event_json es)
         \<and> length es \<le> 100
         \<and> length es = min 100 (length (motion_table w))
         \<and> sorted_wrt (\<lambda>x y. event_timestamp y \<le> event_timestamp x) es
         \<and> mset es + mset rest = mset (motion_table w)
         \<and> (\<forall>x \<in> set es. \<forall>y \<in> set rest. event_timestamp y \<le> event_timestamp x)"
    using b latest_rows [of event_timestamp "motion_table w"]
    by (intro exI [of _ "take 100 ?s"] exI [of _ "drop 100 ?s"]) blast
qed

theorem raw_fetch_latest_witness:
  "status (fst (handle example_world DataTemperature january_request)) = 200
   \<and> status (fst (handle example_world DataMotion january_request)) = 200
   \<and> (\<exists>rs rest. body (fst (handle example_world DataTemperature january_request)) =
           JArray (map reading_json rs)
         \<and> length rs \<le> 100
         \<and> length rs = min 100 (length (temperature_table example_world))
         \<and> sorted_wrt (\<lambda>x y. reading_timestamp y \<le> reading_timestamp x) rs
         \<and> mset rs + mset rest = mset (temperature_table example_world)
         \<and> (\<forall>x \<in> set rs. \<forall>y \<in> set rest. reading_timestamp y \<le> reading_timestamp x))
   \<and> (\<exists>es rest. body (fst (handle example_world DataMotion january_request)) =
           JArray (map event_json es)
         \<and> length es \<le> 100
         \<and> length es = min 100 (length (motion_table example_world))
         \<and> sorted_wrt (\<lambda>x y. event_timestamp y \<le> event_timestamp x) es
         \<and> mset es + mset rest = mset (motion_table example_world)
         \<and> (\<forall>x \<in> set es. \<forall>y \<in> set rest. event_timestamp y \<le> event_timestamp x))"
proof -
  have s: "status (fst (handle example_world DataTemperature january_request)) = 200"
    "status (fst (handle example_world DataMotion january_request)) = 200"
    by (simp_all add: get_temperature_data_def get_motion_data_def status_run_all
        example_world_def)
  show ?thesis
    using s raw_fetch_latest [of example_world january_request] by blast
qed

subsection \<open>Periodic aggregates\<close>

lemma strict_order_by:
  assumes "distinct (map key xs)"
  shows "sorted_wrt (\<lambda>x y. key x < key y) (order_by Asc key xs)"
    and "sorted_wrt (\<lambda>x y. key y < key x) (order_by Desc key xs)"
proof -
  have "mset (map key (sort_key key xs)) = mset (map key xs)" by simp
  then have "distinct (map key (sort_key key xs))"
    using assms by (metis mset_eq_imp_distinct_iff)
  then have "sorted_wrt (<) (map key (sort_key key xs))"
    using sorted_sort_key [of key xs] by (simp add: strict_sorted_iff)
  then have a: "sorted_wrt (\<lambda>x y. key x < key y) (sort_key key xs)"
    by (simp add: sorted_wrt_map)
  then show "sorted_wrt (\<lambda>x y. key x < key y) (order_by Asc key xs)"
    by (simp add: order_by_def)
  from a show "sorted_wrt (\<lambda>x y. key y < key x) (order_by Desc key xs)"
    by (simp add: order_by_def order_by_desc_def sorted_wrt_rev)
qed

lemma ordered_groups:
  defines "strictly d \<equiv> (\<lambda>(x :: string option) y. case d of Asc \<Rightarrow> x < y | Desc \<Rightarrow> y < x)"
  shows "sorted_wrt (\<lambda>x y. strictly d (fst x) (fst y)) (order_by d fst (group_by key xs))"
  using strict_order_by [OF distinct_group_by, of key xs]
  by (cases d) (simp_all add: strictly_def)

lemma average_entries:
  assumes ok: "store_fault w (SelectAverage b d) = None"
  shows "\<exists>entries.
      fst (run_all w (SelectAverage b d)) =
        \<lparr>status = 200, body = JArray (map (average_json b) entries)\<rparr>
      \<and> distinct (map fst entries)
      \<and> fst ` set entries =
          (\<lambda>r. sql_bucket w b (reading_timestamp r)) ` set (temperature_table w)
      \<and> (\<forall>e \<in> set entries.
            snd e = json_of_sql (sql_avg w (map reading_temperature (readings_in w b (fst e)))))
      \<and> sorted_wrt (\<lambda>x y. case d of Asc \<Rightarrow> fst x < fst y | Desc \<Rightarrow> fst y < fst x) entries"
proof -
  define key where "key = (\<lambda>r :: temperature_reading. sql_bucket w b (reading_timestamp r))"
  define groups where "groups = order_by d fst (group_by key (temperature_table w))"
  define entries where
    "entries = map (\<lambda>(l, g). (l, json_of_sql (sql_avg w (map reading_temperature g)))) groups"
  have in_groups: "l \<in> key ` set (temperature_table w) \<and> g = readings_in w b l"
    if "(l, g) \<in> set groups" for l g
  proof -
    from that have "(l, g) \<in> set (group_by key (temperature_table w))"
      by (simp add: groups_def set_order_by)
    from group_by_entry [OF this] show ?thesis
      by (simp add: readings_in_def key_def)
  qed
  have fsts: "map fst entries = map fst groups"
    by (simp add: entries_def case_prod_beta comp_def)
  have row: "json_of_dict (dict (zip [bucket_alias b, ''average_temp'']
               [label_value l, sql_avg w (map reading_temperature g)])) =
             average_json b (l, json_of_sql (sql_avg w (map reading_temperature g)))" for l g
    by (simp add: pair_dict alias_not_value json_of_label average_json_def)
  have "map (\<lambda>row. json_of_dict (dict (zip [bucket_alias b, ''average_temp''] row)))
          (map (\<lambda>(l, g). [label_value l, sql_avg w (map reading_temperature g)]) groups) =
        map (average_json b) entries"
    using row by (auto simp: entries_def)
  then have "fst (run_all w (SelectAverage b d)) =
      \<lparr>status = 200, body = JArray (map (average_json b) entries)\<rparr>"
    using run_all_ok [OF ok] by (simp add: groups_def key_def)
  moreover have "distinct (map fst entries)"
    by (simp only: fsts groups_def distinct_order_by_groups)
  moreover have "fst ` set entries = key ` set (temperature_table w)"
  proof -
    have "fst ` set entries = set (map fst entries)" by simp
    also have "\<dots> = fst ` set (group_by key (temperature_table w))"
      by (simp add: fsts groups_def set_order_by)
    finally show ?thesis by (simp only: group_by_keys)
  qed
  moreover have "\<forall>e \<in> set entries.
      snd e = json_of_sql (sql_avg w (map reading_temperature (readings_in w b (fst e))))"
    using in_groups by (auto simp: entries_def)
  moreover have "sorted_wrt (\<lambda>x y. case d of Asc \<Rightarrow> fst x < fst y | Desc \<Rightarrow> fst y < fst x)
      entries"
  proof -
    have "sorted_wrt (\<lambda>x y. case d of Asc \<Rightarrow> x < y | Desc \<Rightarrow> y < x) (map fst groups)"
      using ordered_groups [of d key "temperature_table w"]
      by (simp add: sorted_wrt_map groups_def)
    then have "sorted_wrt (\<lambda>x y. case d of Asc \<Rightarrow> x < y | Desc \<Rightarrow> y < x) (map fst entries)"
      by (simp only: fsts)
    then show ?thesis by (simp add: sorted_wrt_map)
  qed
  ultimately show ?thesis
    unfolding key_def by blast
qed

lemma count_entries:
  assumes ok: "store_fault w (SelectCount b d) = None"
  shows "\<exists>entries.
      fst (run_all w (SelectCount b d)) =
        \<lparr>status = 200, body = JArray (map (count_json b) entries)\<rparr>
      \<and> distinct (map fst entries)
      \<and> fst ` set entries =
          (\<lambda>e. sql_bucket w b (event_timestamp e)) ` set (motion_table w)
      \<and> (\<forall>e \<in> set entries. snd e = length (events_in w b (fst e)))
      \<and> sorted_wrt (\<lambda>x y. case d of Asc \<Rightarrow> fst x < fst y | Desc \<Rightarrow> fst y < fst x) entries"
proof -
  define key where "key = (\<lambda>e :: motion_event. sql_bucket w b (event_timestamp e))"
  define groups where "groups = order_by d fst (group_by key (motion_table w))"
  define entries where "entries = map (\<lambda>(l, g). (l, length g)) groups"
  have in_groups: "l \<in> key ` set (motion_table w) \<and> g = events_in w b l"
    if "(l, g) \<in> set groups" for l g
  proof -
    from that have "(l, g) \<in> set (group_by key (motion_table w))"
      by (simp add: groups_def set_order_by)
    from group_by_entry [OF this] show ?thesis
      by (simp add: events_in_def key_def)
  qed
  have fsts: "map fst entries = map fst groups"
    by (simp add: entries_def case_prod_beta comp_def)
  have row: "json_of_dict (dict (zip [bucket_alias b, ''motion_count'']
               [label_value l, sql_count g])) = count_json b (l, length g)" for l g
    by (simp add: pair_dict alias_not_value json_of_label count_json_def sql_count_def)
  have "map (\<lambda>row. json_of_dict (dict (zip [bucket_alias b, ''motion_count''] row)))
          (map (\<lambda>(l, g). [label_value l, sql_count g]) groups) =
        map (count_json b) entries"
    using row by (auto simp: entries_def)
  then have "fst (run_all w (SelectCount b d)) =
      \<lparr>status = 200, body = JArray (map (count_json b) entries)\<rparr>"
    using run_all_ok [OF ok] by (simp add: groups_def key_def)
  moreover have "distinct (map fst entries)"
    by (simp only: fsts groups_def distinct_order_by_groups)
  moreover have "fst ` set entries = key ` set (motion_table w)"
  proof -
    have "fst ` set entries = set (map fst entries)" by simp
    also have "\<dots> = fst ` set (group_by key (motion_table w))"
      by (simp add: fsts groups_def set_order_by)
    finally show ?thesis by (simp only: group_by_keys)
  qed
  moreover have "\<forall>e \<in> set entries. snd e = length (events_in w b (fst e))"
    using in_groups by (auto simp: entries_def)
  moreover have "sorted_wrt (\<lambda>x y. case d of Asc \<Rightarrow> fst x < fst y | Desc \<Rightarrow> fst y < fst x)
      entries"
  proof -
    have "sorted_wrt (\<lambda>x y. case d of Asc \<Rightarrow> x < y | Desc \<Rightarrow> y < x) (map fst groups)"
      using ordered_groups [of d key "motion_table w"]
      by (simp add: sorted_wrt_map groups_def)
    then have "sorted_wrt (\<lambda>x y. case d of Asc \<Rightarrow> x < y | Desc \<Rightarrow> y < x) (map fst entries)"
      by (simp only: fsts)
    then show ?thesis by (simp add: sorted_wrt_map)
  qed
  ultimately show ?thesis
    unfolding key_def by blast
qed

lemma average_route:
  "average_bucket r = Some b \<Longrightarrow> handle w r req = run_all w (SelectAverage b Desc)"
  by (cases r) (simp_all add: handler_defs)

lemma count_route:
  "count_bucket r = Some b \<Longrightarrow>
   handle w r req = run_all w (SelectCount b (if r = MotionByHour then Asc else Desc))"
  by (cases r) (simp_all add: handler_defs)





text \<open>
  Claim C6. For every successful periodic-aggregate request the returned array is ordered
  by bucket label descending, except on the motion-by-hour route, where it is ordered by
  the hour label ascending. Labels are compared as the store compares them: text byte by
  byte, \<^verbatim>\<open>NULL\<close> below every text.
\<close>

theorem aggregates_ordered:
  "(average_bucket r = Some b \<and> status (fst (handle w r req)) = 200 \<longrightarrow>
      (\<exists>entries. body (fst (handle w r req)) = JArray (map (average_json b) entries)
         \<and> sorted_wrt (\<lambda>x y. fst y < fst x) entries))
   \<and> (count_bucket r = Some b \<and> r \<noteq> MotionByHour \<and> status (fst (handle w r req)) = 200 \<longrightarrow>
      (\<exists>entries. body (fst (handle w r req)) = JArray (map (count_json b) entries)
         \<and> sorted_wrt (\<lambda>x y. fst y < fst x) entries))
   \<and> (status (fst (handle w MotionByHour req)) = 200 \<longrightarrow>
      (\<exists>entries. body (fst (handle w MotionByHour req)) = JArray (map (count_json Hour) entries)
         \<and> sorted_wrt (\<lambda>x y. fst x < fst y) entries))"
proof (intro conjI impI)
  assume a: "average_bucket r = Some b \<and> status (fst (handle w r req)) = 200"
  then have h: "handle w r req = run_all w (SelectAverage b Desc)"
    by (simp add: average_route)
  with a have "store_fault w (SelectAverage b Desc) = None"
    by (simp add: status_run_all_200)
  from average_entries [OF this] obtain entries where
    "fst (run_all w (SelectAverage b Desc)) =
       \<lparr>status = 200, body = JArray (map (average_json b) entries)\<rparr>"
    "sorted_wrt (\<lambda>x y. case Desc of Asc \<Rightarrow> fst x < fst y | Desc \<Rightarrow> fst y < fst x) entries"
    by blast
  then show "\<exists>entries. body (fst (handle w r req)) = JArray (map (average_json b) entries)
         \<and> sorted_wrt (\<lambda>x y. fst y < fst x) entries"
    by (intro exI [of _ entries]) (simp add: h)
next
  assume a: "count_bucket r = Some b \<and> r \<noteq> MotionByHour
    \<and> status (fst (handle w r req)) = 200"
  then have h: "handle w r req = run_all w (SelectCount b Desc)"
    by (simp add: count_route)
  with a have "store_fault w (SelectCount b Desc) = None"
    by (simp add: status_run_all_200)
  from count_entries [OF this] obtain entries where
    "fst (run_all w (SelectCount b Desc)) =
       \<lparr>status = 200, body = JArray (map (count_json b) entries)\<rparr>"
    "sorted_wrt (\<lambda>x y. case Desc of Asc \<Rightarrow> fst x < fst y | Desc \<Rightarrow> fst y < fst x) entries"
    by blast
  then show "\<exists>entries. body (fst (handle w r req)) = JArray (map (count_json b) entries)
         \<and> sorted_wrt (\<lambda>x y. fst y < fst x) entries"
    by (intro exI [of _ entries]) (simp add: h)
next
  assume a: "status (fst (handle w MotionByHour req)) = 200"
  have h: "handle w MotionByHour req = run_all w (SelectCount Hour Asc)"
    by (simp add: get_motion_by_hour_def)
  with a have "store_fault w (SelectCount Hour Asc) = None"
    by (simp add: status_run_all_200)
  from count_entries [OF this] obtain entries where
    "fst (run_all w (SelectCount Hour Asc)) =
       \<lparr>status = 200, body = JArray (map (count_json Hour) entries)\<rparr>"
    "sorted_wrt (\<lambda>x y. case Asc of Asc \<Rightarrow> fst x < fst y | Desc \<Rightarrow> fst y < fst x) entries"
    by blast
  then show "\<exists>entries. body (fst (handle w MotionByHour req)) =
           JArray (map (count_json Hour) entries)
         \<and> sorted_wrt (\<lambda>x y. fst x < fst y) entries"
    by (intro exI [of _ entries]) (simp add: get_motion_by_hour_def)
qed

theorem aggregates_ordered_witness:
  "average_bucket TemperatureByDay = Some Day
   \<and> status (fst (handle example_world TemperatureByDay january_request)) = 200
   \<and> count_bucket MotionByWeek = Some Week \<and> MotionByWeek \<noteq> MotionByHour
   \<and> status (fst (handle example_world MotionByWeek january_request)) = 200
   \<and> status (fst (handle example_world MotionByHour january_request)) = 200
   \<and> (\<exists>entries. body (fst (handle example_world TemperatureByDay january_request)) =
           JArray (map (average_json Day) entries)
         \<and> sorted_wrt (\<lambda>x y. fst y < fst x) entries)
   \<and> (\<exists>entries. body (fst (handle example_world MotionByWeek january_request)) =
           JArray (map (count_json Week) entries)
         \<and> sorted_wrt (\<lambda>x y. fst y < fst x) entries)
   \<and> (\<exists>entries. body (fst (handle example_world MotionByHour january_request)) =
           JArray (map (count_json Hour) entries)
         \<and> sorted_wrt (\<lambda>x y. fst x < fst y) entries)"
proof -
  have s: "average_bucket TemperatureByDay = Some Day"
    "status (fst (handle example_world TemperatureByDay january_request)) = 200"
    "count_bucket MotionByWeek = Some Week" "MotionByWeek \<noteq> MotionByHour"
    "status (fst (handle example_world MotionByWeek january_request)) = 200"
    "status (fst (handle example_world MotionByHour january_request)) = 200"
    by (simp_all add: get_temperature_by_day_def get_motion_by_week_def get_motion_by_hour_def
        status_run_all example_world_def)
  show ?thesis
    using s
      aggregates_ordered [of TemperatureByDay Day example_world january_request]
      aggregates_ordered [of MotionByWeek Week example_world january_request]
    by blast
qed

subsection \<open>Peak fetch\<close>

lemma head_of_order_by_desc:
  assumes "xs \<noteq> []"
  shows "\<exists>x rest. order_by_desc key xs = x # rest \<and> x \<in> set xs \<and> (\<forall>y \<in> set xs. key y \<le> key x)"
proof -
  have "length (order_by_desc key xs) = length xs" by (rule length_order_by_desc)
  with assms obtain x rest where s: "order_by_desc key xs = x # rest"
    by (cases "order_by_desc key xs") auto
  have "sorted_wrt (\<lambda>a b. key b \<le> key a) (x # rest)"
    using sorted_order_by_desc [of key xs] by (simp only: s)
  then have "\<forall>y \<in> set (x # rest). key y \<le> key x" by auto
  moreover have "set (x # rest) = set xs"
    using set_order_by_desc [of key xs] by (simp only: s)
  ultimately show ?thesis using s by auto
qed

text \<open>On the example tables: the warmest reading, and the day with two events.\<close>

lemma example_peaks:
  "fst (handle example_world TemperaturePeak january_request) =
     \<lparr>status = 200, body = reading_json (example_readings ! 1)\<rparr>"
  "fst (handle example_world MotionPeak january_request) =
     \<lparr>status = 200, body = count_json Day (Some ''2024-01-05'', 2)\<rparr>"
  by (simp_all add: get_peak_temperature_def get_peak_motion_def run_one_def execute_def
      respond_one_def fetchone_def jsonify_def example_world_def example_readings_def
      example_events_def example_bucket_def group_by_def order_by_desc_def temperature_dict
      pair_dict json_of_label count_json_def sql_count_def label_json_def bucket_alias_def)

text \<open>
  Claim C7. For every successful GET /data/temperature/peak request on a non-empty
  temperature table, the returned object is a row of the table whose temperature is
  greater than or equal to the temperature of every row; and for every successful
  GET /data/motion/peak request on a non-empty motion table, the returned object is a
  calendar day of the table with the number of its events, which is greater than or equal
  to the number of events of every day present in the table.
\<close>

theorem peak_is_maximum:
  "(temperature_table w \<noteq> [] \<and> status (fst (handle w TemperaturePeak req)) = 200 \<longrightarrow>
      (\<exists>r \<in> set (temperature_table w).
          body (fst (handle w TemperaturePeak req)) = reading_json r
          \<and> (\<forall>x \<in> set (temperature_table w). reading_temperature x \<le> reading_temperature r)))
   \<and> (motion_table w \<noteq> [] \<and> status (fst (handle w MotionPeak req)) = 200 \<longrightarrow>
      (\<exists>e \<in> set (motion_table w).
          body (fst (handle w MotionPeak req)) =
            count_json Day (sql_bucket w Day (event_timestamp e),
              length (events_in w Day (sql_bucket w Day (event_timestamp e))))
          \<and> (\<forall>x \<in> set (motion_table w).
                length (events_in w Day (sql_bucket w Day (event_timestamp x)))
                  \<le> length (events_in w Day (sql_bucket w Day (event_timestamp e))))))"
proof (intro conjI impI)
  assume a: "temperature_table w \<noteq> [] \<and> status (fst (handle w TemperaturePeak req)) = 200"
  then have ok: "store_fault w SelectPeakTemperature = None"
    using status_run_one_200 [of w SelectPeakTemperature]
    by (simp add: get_peak_temperature_def)
  from a head_of_order_by_desc [of "temperature_table w" reading_temperature]
  obtain r rest where s: "order_by_desc reading_temperature (temperature_table w) = r # rest"
    and r: "r \<in> set (temperature_table w)"
      "\<forall>x \<in> set (temperature_table w). reading_temperature x \<le> reading_temperature r"
    by blast
  have "fetched (run_select w SelectPeakTemperature) = [temperature_row r]"
    by (simp add: s)
  from run_one_ok [OF ok this]
  have "body (fst (handle w TemperaturePeak req)) = reading_json r"
    by (simp add: get_peak_temperature_def temperature_dict)
  with r show "\<exists>r \<in> set (temperature_table w).
      body (fst (handle w TemperaturePeak req)) = reading_json r
      \<and> (\<forall>x \<in> set (temperature_table w). reading_temperature x \<le> reading_temperature r)"
    by blast
next
  assume a: "motion_table w \<noteq> [] \<and> status (fst (handle w MotionPeak req)) = 200"
  then have ok: "store_fault w SelectPeakMotion = None"
    using status_run_one_200 [of w SelectPeakMotion]
    by (simp add: get_peak_motion_def)
  define key where "key = (\<lambda>e :: motion_event. sql_bucket w Day (event_timestamp e))"
  define groups where "groups = group_by key (motion_table w)"
  have keys: "fst ` set groups = key ` set (motion_table w)"
    by (simp only: groups_def group_by_keys)
  have member: "g = events_in w Day l" if "(l, g) \<in> set groups" for l g
    using group_by_entry(2) [of l g key "motion_table w"] that
    by (simp add: groups_def events_in_def key_def)
  from a keys have "groups \<noteq> []" by auto
  from head_of_order_by_desc [OF this, of "\<lambda>(l, g). length g"]
  obtain top rest where s: "order_by_desc (\<lambda>(l, g). length g) groups = top # rest"
    and top: "top \<in> set groups" "\<forall>y \<in> set groups. (\<lambda>(l, g). length g) y \<le> (\<lambda>(l, g). length g) top"
    by blast
  obtain l g where lg: "top = (l, g)" by (cases top)
  from top(1) lg have g: "g = events_in w Day l" using member by simp
  from top(1) lg keys obtain e where e: "e \<in> set (motion_table w)" "key e = l"
    by (metis fst_conv image_iff)
  have "fetched (run_select w SelectPeakMotion) = [[label_value l, sql_count g]]"
    using s lg by (simp add: groups_def key_def)
  from run_one_ok [OF ok this]
  have b: "body (fst (handle w MotionPeak req)) = count_json Day (l, length g)"
    by (simp add: get_peak_motion_def pair_dict json_of_label count_json_def sql_count_def
        bucket_alias_def)
  have "length (events_in w Day (key x)) \<le> length g" if "x \<in> set (motion_table w)" for x
  proof -
    from that keys obtain g' where g': "(key x, g') \<in> set groups"
      by (metis (no_types, lifting) image_iff prod.collapse)
    then have "g' = events_in w Day (key x)" by (rule member)
    with top(2) g' lg show ?thesis by auto
  qed
  with b e g show "\<exists>e \<in> set (motion_table w).
      body (fst (handle w MotionPeak req)) =
        count_json Day (sql_bucket w Day (event_timestamp e),
          length (events_in w Day (sql_bucket w Day (event_timestamp e))))
      \<and> (\<forall>x \<in> set (motion_table w).
            length (events_in w Day (sql_bucket w Day (event_timestamp x)))
              \<le> length (events_in w Day (sql_bucket w Day (event_timestamp e))))"
    unfolding key_def by (intro bexI [of _ e]) auto
qed

theorem peak_is_maximum_witness:
  "temperature_table example_world \<noteq> []
   \<and> status (fst (handle example_world TemperaturePeak january_request)) = 200
   \<and> motion_table example_world \<noteq> []
   \<and> status (fst (handle example_world MotionPeak january_request)) = 200
   \<and> (\<exists>r \<in> set (temperature_table example_world).
          body (fst (handle example_world TemperaturePeak january_request)) = reading_json r
          \<and> (\<forall>x \<in> set (temperature_table example_world).
                reading_temperature x \<le> reading_temperature r))
   \<and> (\<exists>e \<in> set (motion_table example_world).
          body (fst (handle example_world MotionPeak january_request)) =
            count_json Day (sql_bucket example_world Day (event_timestamp e),
              length (events_in example_world Day
                (sql_bucket example_world Day (event_timestamp e))))
          \<and> (\<forall>x \<in> set (motion_table example_world).
                length (events_in example_world Day
                  (sql_bucket example_world Day (event_timestamp x)))
                  \<le> length (events_in example_world Day
                       (sql_bucket example_world Day (event_timestamp e)))))"
proof -
  have s: "temperature_table example_world \<noteq> []" "motion_table example_world \<noteq> []"
    by (simp_all add: example_world_def example_readings_def example_events_def)
  have t: "status (fst (handle example_world TemperaturePeak january_request)) = 200"
    "status (fst (handle example_world MotionPeak january_request)) = 200"
    using example_peaks by simp_all
  show ?thesis
    using s t peak_is_maximum [of example_world january_request] by blast
qed

end
